theory Spec2Isabelle
  imports Complex_Main "HOL-Library.AList"
begin

section \<open>Data model of the step executors\<close>

text \<open>
  The module \<open>steps_executors/auxiliary.py\<close> works on detections, which are Python
  dictionaries with the keys \<open>detection_id\<close>, \<open>parent_id\<close>, \<open>class\<close>, \<open>class_id\<close>,
  \<open>confidence\<close>, \<open>x\<close>, \<open>y\<close>, \<open>width\<close> and \<open>height\<close>. Numbers are modelled as exact
  rationals; the keys \<open>class\<close>, \<open>x\<close> and \<open>y\<close> are the fields \<open>class_name\<close>, \<open>det_x\<close> and
  \<open>det_y\<close>.
\<close>

record detection =
  detection_id :: string
  parent_id :: string
  class_name :: string
  class_id :: int
  confidence :: rat
  det_x :: rat
  det_y :: rat
  width :: rat
  height :: rat

text \<open>Exceptions that the modelled functions can raise.\<close>

datatype error =
    ExecutionGraphError string
  | IndexError
  | AttributeError
  | ZeroDivisionError
  | ValueError
  | StatisticsError
  | TypeError
  | KeyError

datatype AggregationMode = AggAverage | AggMax | AggMin

text \<open>Python's \<open>round\<close> with one argument: to the nearest integer, ties to the even one.\<close>

definition py_round :: "rat \<Rightarrow> int" where
  "py_round q =
     (let f = \<lfloor>q\<rfloor>; r = q - of_int f
      in if r < 1 / 2 then f
         else if 1 / 2 < r then f + 1
         else if even f then f else f + 1)"

subsection \<open>Field aggregation\<close>

text \<open>
  \<open>AGGREGATION_MODE2FIELD_AGGREGATOR\<close>: \<open>max\<close>, \<open>min\<close> and \<open>statistics.mean\<close>. On an
  empty list \<open>max\<close> and \<open>min\<close> raise \<open>ValueError\<close> and \<open>statistics.mean\<close> raises
  \<open>StatisticsError\<close>.
\<close>

fun field_aggregator :: "AggregationMode \<Rightarrow> rat list \<Rightarrow> error + rat" where
  "field_aggregator AggAverage [] = Inl StatisticsError"
| "field_aggregator AggMax [] = Inl ValueError"
| "field_aggregator AggMin [] = Inl ValueError"
| "field_aggregator AggAverage (v # vs) = Inr (sum_list (v # vs) / of_nat (length (v # vs)))"
| "field_aggregator AggMax (v # vs) = Inr (fold max vs v)"
| "field_aggregator AggMin (v # vs) = Inr (fold min vs v)"

definition aggregate_field_values ::
  "detection list \<Rightarrow> (detection \<Rightarrow> rat) \<Rightarrow> AggregationMode \<Rightarrow> error + rat" where
  "aggregate_field_values detections field aggregation_mode =
     field_aggregator aggregation_mode (map field detections)"

definition average_field_values :: "detection list \<Rightarrow> (detection \<Rightarrow> rat) \<Rightarrow> error + rat" where
  "average_field_values detections field = field_aggregator AggAverage (map field detections)"

subsection \<open>Boxes and intersection over union\<close>

definition detection_to_xyxy :: "detection \<Rightarrow> int \<times> int \<times> int \<times> int" where
  "detection_to_xyxy detection =
     (let x_min = py_round (det_x detection - width detection / 2);
          y_min = py_round (det_y detection - height detection / 2);
          x_max = py_round (of_int x_min + width detection);
          y_max = py_round (of_int y_min + height detection)
      in (x_min, y_min, x_max, y_max))"

definition calculate_iou :: "detection \<Rightarrow> detection \<Rightarrow> error + rat" where
  "calculate_iou detection_a detection_b =
     (case detection_to_xyxy detection_a of (a0, a1, a2, a3) \<Rightarrow>
      case detection_to_xyxy detection_b of (b0, b1, b2, b3) \<Rightarrow>
        let x_a = max a0 b0;
            y_a = max a1 b1;
            x_b = min a2 b2;
            y_b = min a3 b3;
            intersection = max 0 (x_b - x_a + 1) * max 0 (y_b - y_a + 1);
            bbox_a_area = (a2 - a0 + 1) * (a3 - a1 + 1);
            bbox_b_area = (b2 - b0 + 1) * (b3 - b1 + 1)
        in if bbox_a_area + bbox_b_area - intersection = 0 then Inl ZeroDivisionError
           else Inr (of_int intersection / of_int (bbox_a_area + bbox_b_area - intersection)))"

subsection \<open>Parent identifier and pre-filtering\<close>

definition parent_id_mismatch_message :: string where
  "parent_id_mismatch_message =
     ''Missmatch in predictions - while executing consensus step, '' @
     ''in equivalent batches, detections are assigned different parent '' @
     ''identifiers, whereas consensus can only be applied for predictions '' @
     ''made against the same input.''"

text \<open>
  The set comprehension of the source is the duplicate-free list of the parent identifiers
  met; \<open>list(s)[0]\<close> on the empty set raises \<open>IndexError\<close>.
\<close>

definition get_parent_id_of_predictions_from_different_sources ::
  "detection list list \<Rightarrow> error + string" where
  "get_parent_id_of_predictions_from_different_sources predictions =
     (let encountered_parent_ids = remdups (map parent_id (concat predictions))
      in if 1 < length encountered_parent_ids
         then Inl (ExecutionGraphError parent_id_mismatch_message)
         else (case encountered_parent_ids of
                 [] \<Rightarrow> Inl IndexError
               | p # _ \<Rightarrow> Inr p))"

definition confidence_matches :: "detection \<Rightarrow> rat \<Rightarrow> bool" where
  "confidence_matches detection confidence_threshold \<longleftrightarrow>
     confidence_threshold < confidence detection"

definition confidence_and_class_match :: "detection \<Rightarrow> rat \<Rightarrow> string set \<Rightarrow> bool" where
  "confidence_and_class_match detection confidence_threshold classes \<longleftrightarrow>
     confidence_matches detection confidence_threshold \<and> class_name detection \<in> classes"

definition filter_predictions ::
  "detection list list \<Rightarrow> rat \<Rightarrow> string list option \<Rightarrow> detection list list" where
  "filter_predictions predictions confidence_threshold classes_to_consider =
     (let detection_matches =
            (case classes_to_consider of
               Some cs \<Rightarrow> (\<lambda>d. confidence_and_class_match d confidence_threshold (set cs))
             | None \<Rightarrow> (\<lambda>d. confidence_matches d confidence_threshold))
      in map (filter detection_matches) predictions)"

subsection \<open>Enumerating detections and finding the best overlaps\<close>

definition enumerate_detections ::
  "detection list list \<Rightarrow> nat option \<Rightarrow> (nat \<times> detection) list" where
  "enumerate_detections predictions excluded_source =
     concat (map (\<lambda>(source_id, detections).
                    if excluded_source \<noteq> None \<and> excluded_source = Some source_id then []
                    else map (\<lambda>detection. (source_id, detection)) detections)
                 (enumerate 0 predictions))"

text \<open>
  The dictionary \<open>current_max_overlap\<close> maps a source index to the best match of that
  source and its IOU; it is an association list in insertion order.
\<close>

type_synonym max_overlap = "(nat \<times> detection \<times> rat) list"

fun max_overlap_scan ::
  "detection \<Rightarrow> rat \<Rightarrow> bool \<Rightarrow> string set \<Rightarrow> (nat \<times> detection) list \<Rightarrow> max_overlap
   \<Rightarrow> error + max_overlap" where
  "max_overlap_scan detection iou_threshold class_aware considered [] current = Inr current"
| "max_overlap_scan detection iou_threshold class_aware considered
      ((other_source, other_detection) # rest) current =
     (if detection_id other_detection \<in> considered
      then max_overlap_scan detection iou_threshold class_aware considered rest current
      else if class_aware \<and> class_name detection \<noteq> class_name other_detection
      then max_overlap_scan detection iou_threshold class_aware considered rest current
      else (case calculate_iou detection other_detection of
              Inl e \<Rightarrow> Inl e
            | Inr iou_value \<Rightarrow>
                if iou_value \<le> iou_threshold
                then max_overlap_scan detection iou_threshold class_aware considered rest current
                else
                  let current1 =
                        (if map_of current other_source = None
                         then AList.update other_source (other_detection, iou_value) current
                         else current);
                      current2 =
                        (case map_of current1 other_source of
                           Some (_, best) \<Rightarrow>
                             if best < iou_value
                             then AList.update other_source (other_detection, iou_value) current1
                             else current1
                         | None \<Rightarrow> current1)
                  in max_overlap_scan detection iou_threshold class_aware considered rest
                       current2))"

definition get_detections_from_different_sources_with_max_overlap ::
  "detection \<Rightarrow> nat \<Rightarrow> detection list list \<Rightarrow> rat \<Rightarrow> bool \<Rightarrow> string set
   \<Rightarrow> error + max_overlap" where
  "get_detections_from_different_sources_with_max_overlap
      detection source predictions iou_threshold class_aware detections_already_considered =
     max_overlap_scan detection iou_threshold class_aware detections_already_considered
       (enumerate_detections predictions (Some source)) []"

subsection \<open>Merging a group of detections\<close>

definition get_class_of_most_confident_detection ::
  "detection list \<Rightarrow> error + string \<times> int" where
  "get_class_of_most_confident_detection detections =
     (case aggregate_field_values detections confidence AggMax of
        Inl e \<Rightarrow> Inl e
      | Inr max_confidence \<Rightarrow>
          (case filter (\<lambda>d. confidence d = max_confidence) detections of
             [] \<Rightarrow> Inl IndexError
           | most_confident_prediction # _ \<Rightarrow>
               Inr (class_name most_confident_prediction, class_id most_confident_prediction)))"

definition get_class_of_least_confident_detection ::
  "detection list \<Rightarrow> error + string \<times> int" where
  "get_class_of_least_confident_detection detections =
     (case aggregate_field_values detections confidence AggMin of
        Inl e \<Rightarrow> Inl e
      | Inr max_confidence \<Rightarrow>
          (case filter (\<lambda>d. confidence d = max_confidence) detections of
             [] \<Rightarrow> Inl IndexError
           | most_confident_prediction # _ \<Rightarrow>
               Inr (class_name most_confident_prediction, class_id most_confident_prediction)))"

text \<open>
  \<open>Counter\<close> keeps its keys in the order of first occurrence, and \<open>most_common(1)\<close> is
  the first entry with the greatest count.
\<close>

definition Counter :: "string list \<Rightarrow> (string \<times> nat) list" where
  "Counter xs =
     fold (\<lambda>c m. AList.update c (case map_of m c of None \<Rightarrow> 1 | Some k \<Rightarrow> Suc k) m) xs []"

fun most_common_1 :: "(string \<times> nat) list \<Rightarrow> (string \<times> nat) list" where
  "most_common_1 [] = []"
| "most_common_1 (p # ps) = [fold (\<lambda>q best. if snd best < snd q then q else best) ps p]"

definition get_majority_class :: "detection list \<Rightarrow> error + string \<times> int" where
  "get_majority_class detections =
     (case most_common_1 (Counter (map class_name detections)) of
        [] \<Rightarrow> Inl IndexError
      | (most_common_class_name, _) # _ \<Rightarrow>
          (case filter (\<lambda>d. class_name d = most_common_class_name) detections of
             [] \<Rightarrow> Inl IndexError
           | d # _ \<Rightarrow> Inr (most_common_class_name, class_id d)))"

fun class_selector :: "AggregationMode \<Rightarrow> detection list \<Rightarrow> error + string \<times> int" where
  "class_selector AggMax = get_class_of_most_confident_detection"
| "class_selector AggMin = get_class_of_least_confident_detection"
| "class_selector AggAverage = get_majority_class"

definition get_detection_sizes :: "detection list \<Rightarrow> rat list" where
  "get_detection_sizes detections = map (\<lambda>d. height d * width d) detections"

definition get_average_bounding_box ::
  "detection list \<Rightarrow> error + rat \<times> rat \<times> rat \<times> rat" where
  "get_average_bounding_box detections =
     (case average_field_values detections det_x of Inl e \<Rightarrow> Inl e | Inr mx \<Rightarrow>
      case average_field_values detections det_y of Inl e \<Rightarrow> Inl e | Inr my \<Rightarrow>
      case average_field_values detections width of Inl e \<Rightarrow> Inl e | Inr mw \<Rightarrow>
      case average_field_values detections height of Inl e \<Rightarrow> Inl e | Inr mh \<Rightarrow>
        Inr (of_int (py_round mx), of_int (py_round my),
             of_int (py_round mw), of_int (py_round mh)))"

definition get_smallest_bounding_box ::
  "detection list \<Rightarrow> error + rat \<times> rat \<times> rat \<times> rat" where
  "get_smallest_bounding_box detections =
     (let detection_sizes = get_detection_sizes detections
      in case field_aggregator AggMin detection_sizes of
           Inl e \<Rightarrow> Inl e
         | Inr smallest_size \<Rightarrow>
             (case filter (\<lambda>(idx, v). v = smallest_size) (enumerate 0 detection_sizes) of
                [] \<Rightarrow> Inl IndexError
              | (matching_detection_id, _) # _ \<Rightarrow>
                  let matching_detection = detections ! matching_detection_id
                  in Inr (det_x matching_detection, det_y matching_detection,
                          width matching_detection, height matching_detection)))"

definition get_largest_bounding_box ::
  "detection list \<Rightarrow> error + rat \<times> rat \<times> rat \<times> rat" where
  "get_largest_bounding_box detections =
     (let detection_sizes = get_detection_sizes detections
      in case field_aggregator AggMax detection_sizes of
           Inl e \<Rightarrow> Inl e
         | Inr largest_size \<Rightarrow>
             (case filter (\<lambda>(idx, v). v = largest_size) (enumerate 0 detection_sizes) of
                [] \<Rightarrow> Inl IndexError
              | (matching_detection_id, _) # _ \<Rightarrow>
                  let matching_detection = detections ! matching_detection_id
                  in Inr (det_x matching_detection, det_y matching_detection,
                          width matching_detection, height matching_detection)))"

fun boxes_aggregator ::
  "AggregationMode \<Rightarrow> detection list \<Rightarrow> error + rat \<times> rat \<times> rat \<times> rat" where
  "boxes_aggregator AggMax = get_largest_bounding_box"
| "boxes_aggregator AggMin = get_smallest_bounding_box"
| "boxes_aggregator AggAverage = get_average_bounding_box"

text \<open>
  \<open>merge_detections\<close> draws the identifier of the merged detection from \<open>uuid4\<close>; the
  identifier drawn is the argument \<open>new_id\<close>.
\<close>

definition merge_detections ::
  "detection list \<Rightarrow> AggregationMode \<Rightarrow> AggregationMode \<Rightarrow> string \<Rightarrow> error + detection" where
  "merge_detections detections confidence_aggregation_mode boxes_aggregation_mode new_id =
     (case class_selector confidence_aggregation_mode detections of
        Inl e \<Rightarrow> Inl e
      | Inr (cname, cid) \<Rightarrow>
     (case boxes_aggregator boxes_aggregation_mode detections of
        Inl e \<Rightarrow> Inl e
      | Inr (bx, by, bw, bh) \<Rightarrow>
     (case detections of
        [] \<Rightarrow> Inl IndexError
      | first_detection # _ \<Rightarrow>
     (case aggregate_field_values detections confidence confidence_aggregation_mode of
        Inl e \<Rightarrow> Inl e
      | Inr merged_confidence \<Rightarrow>
          Inr \<lparr> detection_id = new_id,
                parent_id = parent_id first_detection,
                class_name = cname,
                class_id = cid,
                confidence = merged_confidence,
                det_x = bx, det_y = by, width = bw, height = bh \<rparr>))))"

subsection \<open>The presence verdict\<close>

text \<open>
  \<open>required_objects\<close> is \<open>None\<close>, an integer or a dictionary from class names to
  integers. The confidence map returned is an association list in insertion order.
\<close>

datatype required_objects = RequiredCount int | RequiredPerClass "(string \<times> int) list"

text \<open>
  \<open>class2detections\<close> is a \<open>defaultdict(list)\<close>: reading a missing key stores the empty
  list under that key before returning it.
\<close>

definition defaultdict_get ::
  "(string \<times> detection list) list \<Rightarrow> string
   \<Rightarrow> detection list \<times> (string \<times> detection list) list" where
  "defaultdict_get m k =
     (case map_of m k of
        None \<Rightarrow> ([], AList.update k [] m)
      | Some v \<Rightarrow> (v, m))"

fun group_by_class ::
  "detection list \<Rightarrow> (string \<times> detection list) list \<Rightarrow> (string \<times> detection list) list" where
  "group_by_class [] class2detections = class2detections"
| "group_by_class (detection # rest) class2detections =
     (case defaultdict_get class2detections (class_name detection) of
        (v, m) \<Rightarrow> group_by_class rest (AList.update (class_name detection) (v @ [detection]) m))"

text \<open>
  The loop over \<open>required_objects.items()\<close>: \<open>None\<close> stands for the early
  \<open>return False, {}\<close>, otherwise the loop ends with the dictionary as the reads left it.
\<close>

fun required_classes_present ::
  "(string \<times> int) list \<Rightarrow> (string \<times> detection list) list
   \<Rightarrow> (string \<times> detection list) list option" where
  "required_classes_present [] class2detections = Some class2detections"
| "required_classes_present ((requested_class, required_objects_count) # rest) class2detections =
     (case defaultdict_get class2detections requested_class of
        (v, m) \<Rightarrow>
          if int (length v) < required_objects_count then None
          else required_classes_present rest m)"

fun class2confidence ::
  "AggregationMode \<Rightarrow> (string \<times> detection list) list \<Rightarrow> error + (string \<times> rat) list" where
  "class2confidence aggregation_mode [] = Inr []"
| "class2confidence aggregation_mode ((cname, class_detections) # rest) =
     (case aggregate_field_values class_detections confidence aggregation_mode of
        Inl e \<Rightarrow> Inl e
      | Inr v \<Rightarrow>
          (case class2confidence aggregation_mode rest of
             Inl e \<Rightarrow> Inl e
           | Inr r \<Rightarrow> Inr ((cname, v) # r)))"

definition check_objects_presence_in_consensus_predictions ::
  "detection list \<Rightarrow> bool \<Rightarrow> AggregationMode \<Rightarrow> required_objects option
   \<Rightarrow> error + bool \<times> (string \<times> rat) list" where
  "check_objects_presence_in_consensus_predictions
      consensus_detections class_aware aggregation_mode required_objects =
     (if length consensus_detections = 0 then Inr (False, [])
      else
        let required1 = (case required_objects of None \<Rightarrow> RequiredCount 0 | Some r \<Rightarrow> r);
            required2 =
              (case required1 of
                 RequiredPerClass m \<Rightarrow>
                   if \<not> class_aware then RequiredCount (sum_list (map snd m)) else required1
               | RequiredCount _ \<Rightarrow> required1)
        in if \<not> class_aware then
             (case required2 of
                RequiredPerClass _ \<Rightarrow> Inl TypeError
              | RequiredCount n \<Rightarrow>
                  if int (length consensus_detections) < n then Inr (False, [])
                  else
                    (case aggregate_field_values consensus_detections confidence
                            aggregation_mode of
                       Inl e \<Rightarrow> Inl e
                     | Inr aggregated_confidence \<Rightarrow>
                         Inr (True, [(''any_object'', aggregated_confidence)])))
           else
             (case required2 of
                RequiredCount _ \<Rightarrow> Inl AttributeError
              | RequiredPerClass m \<Rightarrow>
                  (case required_classes_present m (group_by_class consensus_detections []) of
                     None \<Rightarrow> Inr (False, [])
                   | Some class2detections \<Rightarrow>
                       (case class2confidence aggregation_mode class2detections of
                          Inl e \<Rightarrow> Inl e
                        | Inr confidences \<Rightarrow> Inr (True, confidences)))))"

subsection \<open>Consensus of one batch element\<close>

text \<open>
  The state of the loop over the seeds: the consensus detections so far, the identifiers
  already considered, and the number of identifiers drawn from \<open>uuid4\<close>. The \<open>n\<close>-th
  identifier drawn is \<open>uuid4 n\<close>.
\<close>

type_synonym consensus_state = "detection list \<times> string set \<times> nat"

definition consensus_iteration ::
  "detection list list \<Rightarrow> int \<Rightarrow> bool \<Rightarrow> rat \<Rightarrow> rat \<Rightarrow> AggregationMode \<Rightarrow> AggregationMode
   \<Rightarrow> (nat \<Rightarrow> string) \<Rightarrow> consensus_state \<Rightarrow> nat \<times> detection \<Rightarrow> error + consensus_state" where
  "consensus_iteration predictions required_votes class_aware iou_threshold confidence_threshold
      detections_merge_confidence_aggregation detections_merge_coordinates_aggregation
      uuid4 state seed =
     (case state of (consensus_detections, detections_already_considered, n) \<Rightarrow>
      case seed of (source_id, detection) \<Rightarrow>
      case get_detections_from_different_sources_with_max_overlap detection source_id
             predictions iou_threshold class_aware detections_already_considered of
        Inl e \<Rightarrow> Inl e
      | Inr detections_with_max_overlap \<Rightarrow>
          if required_votes - 1 \<le> int (length detections_with_max_overlap) then
            (case merge_detections
                    (detection # map (\<lambda>matched_value. fst (snd matched_value))
                                     detections_with_max_overlap)
                    detections_merge_confidence_aggregation
                    detections_merge_coordinates_aggregation (uuid4 n) of
               Inl e \<Rightarrow> Inl e
             | Inr merged_detection \<Rightarrow>
                 if confidence_threshold \<le> confidence merged_detection then
                   Inr (consensus_detections @ [merged_detection],
                        insert (detection_id detection) detections_already_considered \<union>
                          set (map (\<lambda>matched_value. detection_id (fst (snd matched_value)))
                                   detections_with_max_overlap),
                        Suc n)
                 else Inr (consensus_detections, detections_already_considered, Suc n))
          else Inr (consensus_detections, detections_already_considered, n))"

fun consensus_loop ::
  "detection list list \<Rightarrow> int \<Rightarrow> bool \<Rightarrow> rat \<Rightarrow> rat \<Rightarrow> AggregationMode \<Rightarrow> AggregationMode
   \<Rightarrow> (nat \<Rightarrow> string) \<Rightarrow> (nat \<times> detection) list \<Rightarrow> consensus_state
   \<Rightarrow> error + consensus_state" where
  "consensus_loop predictions required_votes class_aware iou_threshold confidence_threshold
      cmode bmode uuid4 [] state = Inr state"
| "consensus_loop predictions required_votes class_aware iou_threshold confidence_threshold
      cmode bmode uuid4 (seed # seeds) state =
     (case consensus_iteration predictions required_votes class_aware iou_threshold
             confidence_threshold cmode bmode uuid4 state seed of
        Inl e \<Rightarrow> Inl e
      | Inr state' \<Rightarrow>
          consensus_loop predictions required_votes class_aware iou_threshold
            confidence_threshold cmode bmode uuid4 seeds state')"

text \<open>
  \<open>resolve_batch_consensus\<close> returns the parent identifier, the presence verdict with its
  confidence map and the consensus detections; the model also returns the number of
  identifiers drawn.
\<close>

definition resolve_batch_consensus ::
  "detection list list \<Rightarrow> int \<Rightarrow> bool \<Rightarrow> rat \<Rightarrow> rat \<Rightarrow> string list option
   \<Rightarrow> required_objects option \<Rightarrow> AggregationMode \<Rightarrow> AggregationMode \<Rightarrow> AggregationMode
   \<Rightarrow> (nat \<Rightarrow> string) \<Rightarrow> nat
   \<Rightarrow> error + (string \<times> bool \<times> (string \<times> rat) list \<times> detection list) \<times> nat" where
  "resolve_batch_consensus predictions required_votes class_aware iou_threshold
      confidence_threshold classes_to_consider required_objects
      presence_confidence_aggregation detections_merge_confidence_aggregation
      detections_merge_coordinates_aggregation uuid4 n0 =
     (case get_parent_id_of_predictions_from_different_sources predictions of
        Inl e \<Rightarrow> Inl e
      | Inr pid \<Rightarrow>
          let filtered = filter_predictions predictions 0 classes_to_consider
          in case consensus_loop filtered required_votes class_aware iou_threshold
                    confidence_threshold detections_merge_confidence_aggregation
                    detections_merge_coordinates_aggregation uuid4
                    (enumerate_detections filtered None) ([], {}, n0) of
               Inl e \<Rightarrow> Inl e
             | Inr (consensus_detections, _, n) \<Rightarrow>
                 (case check_objects_presence_in_consensus_predictions consensus_detections
                         class_aware presence_confidence_aggregation required_objects of
                    Inl e \<Rightarrow> Inl e
                  | Inr (object_present, presence_confidence) \<Rightarrow>
                      Inr ((pid, object_present, presence_confidence, consensus_detections),
                           n)))"

subsection \<open>The consensus step over a batch\<close>

text \<open>
  A predictions value is a flat list of detections (one image) or a list of such lists (a
  batch of images). The source tells them apart by the type of the first element.
\<close>

datatype predictions_value = Flat "detection list" | Nested "detection list list"

fun get_batch_size :: "predictions_value \<Rightarrow> nat" where
  "get_batch_size (Flat predictions) = 1"
| "get_batch_size (Nested predictions) =
     (if length predictions = 0 then 1 else length predictions)"

definition get_predictions_batch_sizes :: "predictions_value list \<Rightarrow> nat list" where
  "get_predictions_batch_sizes all_predictions = map get_batch_size all_predictions"

fun all_batch_sizes_equal :: "nat list \<Rightarrow> bool" where
  "all_batch_sizes_equal [] = True"
| "all_batch_sizes_equal (reference # rest) = list_all (\<lambda>e. e = reference) (reference # rest)"

definition dimension_mismatch_message :: "string \<Rightarrow> string" where
  "dimension_mismatch_message step_name =
     ''Detected missmatch of input dimensions in step: '' @ step_name"

definition get_and_validate_batch_sizes ::
  "predictions_value list \<Rightarrow> string \<Rightarrow> error + nat list" where
  "get_and_validate_batch_sizes all_predictions step_name =
     (let batch_sizes = get_predictions_batch_sizes all_predictions
      in if \<not> all_batch_sizes_equal batch_sizes
         then Inl (ExecutionGraphError (dimension_mismatch_message step_name))
         else Inr batch_sizes)"

text \<open>
  The image metadata resolved next to the first predictions selector: one value, or a list
  with one value per batch element.
\<close>

datatype 'm images_meta = ImageMeta 'm | ImageMetaBatch "'m list"

record 'm consensus_result =
  res_predictions :: "detection list"
  res_parent_id :: string
  res_object_present :: bool
  res_presence_confidence :: "(string \<times> rat) list"
  res_image :: "'m images_meta"

datatype 'a step_output = SingleResult 'a | BatchResults "'a list"

fun map_result :: "('a \<Rightarrow> error + 'b) \<Rightarrow> 'a list \<Rightarrow> error + 'b list" where
  "map_result f [] = Inr []"
| "map_result f (a # as) =
     (case f a of
        Inl e \<Rightarrow> Inl e
      | Inr b \<Rightarrow> (case map_result f as of Inl e \<Rightarrow> Inl e | Inr bs \<Rightarrow> Inr (b # bs)))"

text \<open>
  The detections of one source for one batch element. With a batch size of one the source
  is wrapped in a list and taken back as it is, so a nested source with one element reaches
  the consensus as a list of lists, where reading \<open>parent_id\<close> from a list raises
  \<open>TypeError\<close>.
\<close>

fun batch_element :: "nat \<Rightarrow> nat \<Rightarrow> predictions_value \<Rightarrow> error + detection list" where
  "batch_element batch_size batch_index (Flat ds) =
     (if batch_size = 1 then Inr ds
      else if batch_index < length ds then Inl TypeError else Inl IndexError)"
| "batch_element batch_size batch_index (Nested xs) =
     (if batch_size = 1 then (if xs = [] then Inr [] else Inl TypeError)
      else if batch_index < length xs then Inr (xs ! batch_index) else Inl IndexError)"

fun image_of_batch_element :: "nat \<Rightarrow> nat \<Rightarrow> 'm images_meta \<Rightarrow> error + 'm images_meta" where
  "image_of_batch_element batch_size batch_index (ImageMeta m) =
     (if batch_size = 1 then Inr (ImageMeta m) else Inl KeyError)"
| "image_of_batch_element batch_size batch_index (ImageMetaBatch ms) =
     (if batch_size = 1 then Inr (ImageMetaBatch ms)
      else if batch_index < length ms then Inr (ImageMeta (ms ! batch_index))
      else Inl IndexError)"

fun consensus_over_batch ::
  "predictions_value list \<Rightarrow> 'm images_meta \<Rightarrow> nat \<Rightarrow> int \<Rightarrow> bool \<Rightarrow> rat \<Rightarrow> rat
   \<Rightarrow> string list option \<Rightarrow> required_objects option
   \<Rightarrow> AggregationMode \<Rightarrow> AggregationMode \<Rightarrow> AggregationMode
   \<Rightarrow> (nat \<Rightarrow> string) \<Rightarrow> nat list \<Rightarrow> nat \<Rightarrow> error + 'm consensus_result list \<times> nat" where
  "consensus_over_batch all_predictions images batch_size required_votes class_aware
      iou_threshold confidence_threshold classes_to_consider required_objects pmode cmode bmode
      uuid4 [] n = Inr ([], n)"
| "consensus_over_batch all_predictions images batch_size required_votes class_aware
      iou_threshold confidence_threshold classes_to_consider required_objects pmode cmode bmode
      uuid4 (batch_index # rest) n =
     (case map_result (batch_element batch_size batch_index) all_predictions of
        Inl e \<Rightarrow> Inl e
      | Inr batch_predictions \<Rightarrow>
     (case resolve_batch_consensus batch_predictions required_votes class_aware iou_threshold
             confidence_threshold classes_to_consider required_objects pmode cmode bmode
             uuid4 n of
        Inl e \<Rightarrow> Inl e
      | Inr ((pid, object_present, presence_confidence, consensus_detections), n') \<Rightarrow>
     (case image_of_batch_element batch_size batch_index images of
        Inl e \<Rightarrow> Inl e
      | Inr image_meta \<Rightarrow>
     (case consensus_over_batch all_predictions images batch_size required_votes class_aware
             iou_threshold confidence_threshold classes_to_consider required_objects
             pmode cmode bmode uuid4 rest n' of
        Inl e \<Rightarrow> Inl e
      | Inr (results, n'') \<Rightarrow>
          Inr (\<lparr> res_predictions = consensus_detections,
                  res_parent_id = pid,
                  res_object_present = object_present,
                  res_presence_confidence = presence_confidence,
                  res_image = image_meta \<rparr> # results, n'')))))"

text \<open>
  \<open>run_detections_consensus_step\<close> on its resolved inputs: the predictions of every
  source, the image metadata and the parameters of the step. The value returned is the one
  stored in the outputs lookup under the step's selector.
\<close>

definition run_detections_consensus_step ::
  "string \<Rightarrow> predictions_value list \<Rightarrow> 'm images_meta \<Rightarrow> int \<Rightarrow> bool \<Rightarrow> rat \<Rightarrow> rat
   \<Rightarrow> string list option \<Rightarrow> required_objects option
   \<Rightarrow> AggregationMode \<Rightarrow> AggregationMode \<Rightarrow> AggregationMode
   \<Rightarrow> (nat \<Rightarrow> string) \<Rightarrow> nat \<Rightarrow> error + 'm consensus_result step_output \<times> nat" where
  "run_detections_consensus_step step_name all_predictions images required_votes class_aware
      iou_threshold confidence_threshold classes_to_consider required_objects pmode cmode bmode
      uuid4 n =
     (if length all_predictions < 1
      then Inl (ExecutionGraphError
                  ''Consensus step requires at least one source of predictions.'')
      else
        (case get_and_validate_batch_sizes all_predictions step_name of
           Inl e \<Rightarrow> Inl e
         | Inr batch_sizes \<Rightarrow>
        (case batch_sizes of
           [] \<Rightarrow> Inl IndexError
         | batch_size # _ \<Rightarrow>
        (case consensus_over_batch all_predictions images batch_size required_votes
                class_aware iou_threshold confidence_threshold classes_to_consider
                required_objects pmode cmode bmode uuid4 [0..<batch_size] n of
           Inl e \<Rightarrow> Inl e
         | Inr (results, n') \<Rightarrow>
             if batch_size = 1
             then (case results of
                     [] \<Rightarrow> Inl IndexError
                   | r # _ \<Rightarrow> Inr (SingleResult r, n'))
             else Inr (BatchResults results, n')))))"

subsection \<open>Crop and detection offset\<close>

text \<open>
  A slice \<open>xs[a:b]\<close> of Python and numpy: a negative bound counts from the end, and both
  bounds are clipped to the length.
\<close>

definition slice_bound :: "nat \<Rightarrow> int \<Rightarrow> nat" where
  "slice_bound n i = (if i < 0 then nat (max (i + int n) 0) else min (nat i) n)"

definition py_slice :: "'a list \<Rightarrow> int \<Rightarrow> int \<Rightarrow> 'a list" where
  "py_slice xs a b =
     (let lo = slice_bound (length xs) a; hi = slice_bound (length xs) b
      in take (hi - lo) (drop lo xs))"

record 'o origin_coordinates =
  center_x :: rat
  center_y :: rat
  origin_size :: 'o

record ('t, 'p, 'o) crop =
  crop_type :: 't
  crop_value :: "'p list list"
  crop_parent_id :: string
  crop_origin_coordinates :: "'o origin_coordinates"

text \<open>
  \<open>crop_image\<close>: the image \<open>img\<close> is a list of rows of pixels; \<open>numpy_object\<close> is the value of
  \<open>ImageType.NUMPY_OBJECT\<close>, which the module imports.
\<close>

definition crop_image ::
  "'t \<Rightarrow> 'p list list \<Rightarrow> detection list \<Rightarrow> 'o \<Rightarrow> ('t, 'p, 'o) crop list" where
  "crop_image numpy_object img detections origin =
     map (\<lambda>detection.
            case detection_to_xyxy detection of (x_min, y_min, x_max, y_max) \<Rightarrow>
              let cropped_image = map (\<lambda>row. py_slice row x_min x_max)
                                      (py_slice img y_min y_max)
              in \<lparr> crop_type = numpy_object,
                    crop_value = cropped_image,
                    crop_parent_id = detection_id detection,
                    crop_origin_coordinates =
                      \<lparr> center_x = det_x detection,
                        center_y = det_y detection,
                        origin_size = origin \<rparr> \<rparr>)
         detections"

text \<open>\<open>offset_detection\<close>; \<open>new_id\<close> is the identifier drawn from \<open>uuid4\<close>.\<close>

definition offset_detection :: "detection \<Rightarrow> rat \<Rightarrow> rat \<Rightarrow> string \<Rightarrow> detection" where
  "offset_detection detection offset_x offset_y new_id =
     (let detection_copy = detection;
          detection_copy = detection_copy\<lparr> width := width detection_copy + of_int (py_round offset_x) \<rparr>;
          detection_copy = detection_copy\<lparr> height := height detection_copy + of_int (py_round offset_y) \<rparr>;
          detection_copy = detection_copy\<lparr> parent_id := detection_id detection_copy \<rparr>;
          detection_copy = detection_copy\<lparr> detection_id := new_id \<rparr>
      in detection_copy)"

subsection \<open>Notions used to state the properties\<close>

text \<open>
  The number of detections of a class in a list, and whether every class named in a
  per-class mapping reaches its minimum there. These follow the wording of the
  specification; the code computes the same numbers through \<open>class2detections\<close>.
\<close>

definition class_count :: "string \<Rightarrow> detection list \<Rightarrow> int" where
  "class_count c detections = int (length (filter (\<lambda>d. class_name d = c) detections))"

definition reaches_minimums :: "(string \<times> int) list \<Rightarrow> detection list \<Rightarrow> bool" where
  "reaches_minimums m detections = list_all (\<lambda>(c, k). k \<le> class_count c detections) m"

text \<open>Whether an exception is an \<open>ExecutionGraphError\<close>.\<close>

definition is_graph_error :: "error \<Rightarrow> bool" where
  "is_graph_error e = (case e of ExecutionGraphError _ \<Rightarrow> True | _ \<Rightarrow> False)"

subsection \<open>Example inputs\<close>

definition example_detection :: "string \<Rightarrow> string \<Rightarrow> string \<Rightarrow> rat \<Rightarrow> rat \<Rightarrow> detection" where
  "example_detection i p c cf x0 =
     \<lparr> detection_id = i, parent_id = p, class_name = c, class_id = 0, confidence = cf,
       det_x = x0, det_y = 50, width = 20, height = 20 \<rparr>"

definition example_uuid4 :: "nat \<Rightarrow> string" where
  "example_uuid4 n = replicate (Suc n) (CHR ''u'')"

section \<open>Properties\<close>

lemmas eval_defs =
  resolve_batch_consensus_def get_parent_id_of_predictions_from_different_sources_def
  filter_predictions_def confidence_matches_def confidence_and_class_match_def
  enumerate_detections_def consensus_iteration_def
  get_detections_from_different_sources_with_max_overlap_def calculate_iou_def
  detection_to_xyxy_def py_round_def Let_def merge_detections_def get_majority_class_def
  Counter_def get_average_bounding_box_def get_smallest_bounding_box_def
  get_largest_bounding_box_def get_detection_sizes_def average_field_values_def
  aggregate_field_values_def check_objects_presence_in_consensus_predictions_def
  get_class_of_most_confident_detection_def get_class_of_least_confident_detection_def
  defaultdict_get_def enumerate_eq_zip example_detection_def example_uuid4_def

subsection \<open>The parent identifier\<close>

lemma remdups_singleton_set: "set xs = {p} \<Longrightarrow> remdups xs = [p]"
proof -
  assume h: "set xs = {p}"
  have "length (remdups xs) = card (set xs)" by (rule length_remdups_card_conv)
  with h have l: "length (remdups xs) = 1" by simp
  then obtain q where q: "remdups xs = [q]"
    by (cases "remdups xs") auto
  have "set (remdups xs) = {p}" using h by simp
  with q show ?thesis by simp
qed

lemma get_parent_id_many:
  "1 < card (set (map parent_id (concat predictions))) \<Longrightarrow>
   get_parent_id_of_predictions_from_different_sources predictions =
     Inl (ExecutionGraphError parent_id_mismatch_message)"
  unfolding get_parent_id_of_predictions_from_different_sources_def Let_def
  by (simp only: length_remdups_card_conv if_True)

lemma get_parent_id_single:
  "set (map parent_id (concat predictions)) = {p} \<Longrightarrow>
   get_parent_id_of_predictions_from_different_sources predictions = Inr p"
  unfolding get_parent_id_of_predictions_from_different_sources_def Let_def
  by (simp only: remdups_singleton_set) simp

lemma get_parent_id_none:
  assumes "concat predictions = []"
  shows "get_parent_id_of_predictions_from_different_sources predictions = Inl IndexError"
  unfolding get_parent_id_of_predictions_from_different_sources_def Let_def assms
  by simp

text \<open>
  Claim C5. When the detections of one batch element carry more than one distinct
  \<open>parent_id\<close> over all sources, \<open>resolve_batch_consensus\<close> raises
  \<open>ExecutionGraphError\<close>. When all of them carry the same \<open>parent_id\<close> (so there is at
  least one detection), that identifier is what the parent-id extraction returns, and every
  result of \<open>resolve_batch_consensus\<close> carries it.
\<close>

theorem parent_id_validation:
  "(1 < card (set (map parent_id (concat predictions))) \<longrightarrow>
      resolve_batch_consensus predictions required_votes class_aware iou_threshold
        confidence_threshold classes_to_consider required_objects pmode cmode bmode uuid n
      = Inl (ExecutionGraphError parent_id_mismatch_message)) \<and>
   (set (map parent_id (concat predictions)) = {p} \<longrightarrow>
      get_parent_id_of_predictions_from_different_sources predictions = Inr p \<and>
      (\<forall>pid present conf dets n'.
         resolve_batch_consensus predictions required_votes class_aware iou_threshold
           confidence_threshold classes_to_consider required_objects pmode cmode bmode uuid n
         = Inr ((pid, present, conf, dets), n') \<longrightarrow> pid = p))"
proof (intro conjI impI allI)
  assume "1 < card (set (map parent_id (concat predictions)))"
  then show "resolve_batch_consensus predictions required_votes class_aware iou_threshold
        confidence_threshold classes_to_consider required_objects pmode cmode bmode uuid n
      = Inl (ExecutionGraphError parent_id_mismatch_message)"
    by (simp add: resolve_batch_consensus_def get_parent_id_many)
next
  assume "set (map parent_id (concat predictions)) = {p}"
  then show "get_parent_id_of_predictions_from_different_sources predictions = Inr p"
    by (rule get_parent_id_single)
next
  fix pid present conf dets n'
  assume s: "set (map parent_id (concat predictions)) = {p}"
    and r: "resolve_batch_consensus predictions required_votes class_aware iou_threshold
           confidence_threshold classes_to_consider required_objects pmode cmode bmode uuid n
         = Inr ((pid, present, conf, dets), n')"
  from r show "pid = p"
    unfolding resolve_batch_consensus_def get_parent_id_single [OF s] Let_def
    by (auto split: sum.splits prod.splits)
qed

theorem parent_id_validation_witness:
  "1 < card (set (map parent_id (concat
      [[example_detection ''a'' ''image-1'' ''cat'' (9 / 10) 50],
       [example_detection ''b'' ''image-2'' ''cat'' (8 / 10) 50]]))) \<and>
   resolve_batch_consensus
      [[example_detection ''a'' ''image-1'' ''cat'' (9 / 10) 50],
       [example_detection ''b'' ''image-2'' ''cat'' (8 / 10) 50]]
      2 False (3 / 10) (3 / 10) None None AggAverage AggAverage AggAverage example_uuid4 0
     = Inl (ExecutionGraphError parent_id_mismatch_message) \<and>
   set (map parent_id (concat
      [[example_detection ''a'' ''image-1'' ''cat'' (9 / 10) 50],
       [example_detection ''b'' ''image-1'' ''cat'' (8 / 10) 50]])) = {''image-1''} \<and>
   get_parent_id_of_predictions_from_different_sources
      [[example_detection ''a'' ''image-1'' ''cat'' (9 / 10) 50],
       [example_detection ''b'' ''image-1'' ''cat'' (8 / 10) 50]] = Inr ''image-1'' \<and>
   (\<exists>present conf dets n'.
      resolve_batch_consensus
        [[example_detection ''a'' ''image-1'' ''cat'' (9 / 10) 50],
         [example_detection ''b'' ''image-1'' ''cat'' (8 / 10) 50]]
        2 False (3 / 10) (3 / 10) None None AggAverage AggAverage AggAverage example_uuid4 0
      = Inr ((''image-1'', present, conf, dets), n'))"
proof -
  let ?two = "[[example_detection ''a'' ''image-1'' ''cat'' (9 / 10) 50],
       [example_detection ''b'' ''image-2'' ''cat'' (8 / 10) 50]]"
  let ?one = "[[example_detection ''a'' ''image-1'' ''cat'' (9 / 10) 50],
       [example_detection ''b'' ''image-1'' ''cat'' (8 / 10) 50]]"
  have h1: "1 < card (set (map parent_id (concat ?two)))"
    by (simp add: example_detection_def)
  have h2: "set (map parent_id (concat ?one)) = {''image-1''}"
    by (simp add: example_detection_def)
  note t1 = parent_id_validation [where predictions = ?two and required_votes = 2
      and class_aware = False and iou_threshold = "3 / 10" and confidence_threshold = "3 / 10"
      and classes_to_consider = None and required_objects = None and pmode = AggAverage
      and cmode = AggAverage and bmode = AggAverage and uuid = example_uuid4 and n = 0, THEN conjunct1, rule_format, OF h1]
  note t2 = parent_id_validation [where predictions = ?one and p = "''image-1''"
      and required_votes = 2
      and class_aware = False and iou_threshold = "3 / 10" and confidence_threshold = "3 / 10"
      and classes_to_consider = None and required_objects = None and pmode = AggAverage
      and cmode = AggAverage and bmode = AggAverage and uuid = example_uuid4 and n = 0, THEN conjunct2, rule_format, OF h2]
  obtain r n' where r: "resolve_batch_consensus ?one 2 False (3 / 10) (3 / 10) None None
      AggAverage AggAverage AggAverage example_uuid4 0 = Inr (r, n')"
    by (simp add: eval_defs)
  obtain pid present conf dets where rr: "r = (pid, present, conf, dets)"
    by (cases r) auto
  have "pid = ''image-1''" using t2 r rr by blast
  with r rr have e: "\<exists>present conf dets n'. resolve_batch_consensus ?one 2 False (3 / 10) (3 / 10) None None
      AggAverage AggAverage AggAverage example_uuid4 0 = Inr ((''image-1'', present, conf, dets), n')"
    by blast
  show ?thesis
    using h1 t1 h2 t2 e by blast
qed


subsection \<open>Empty sources\<close>

lemma map_result_all_empty:
  "\<forall>v\<in>set all_predictions. v = Flat [] \<or> v = Nested [] \<Longrightarrow>
   map_result (batch_element 1 i) all_predictions = Inr (replicate (length all_predictions) [])"
  by (induction all_predictions) auto

lemma batch_sizes_all_empty:
  "\<forall>v\<in>set all_predictions. v = Flat [] \<or> v = Nested [] \<Longrightarrow>
   get_predictions_batch_sizes all_predictions = replicate (length all_predictions) 1"
  unfolding get_predictions_batch_sizes_def
  by (induction all_predictions) auto

lemma all_batch_sizes_equal_replicate: "all_batch_sizes_equal (replicate k b)"
  by (cases k) (simp_all add: list_all_iff)

lemma resolve_all_empty:
  assumes "\<forall>s\<in>set predictions. s = []"
  shows "resolve_batch_consensus predictions required_votes class_aware iou_threshold
        confidence_threshold classes_to_consider required_objects pmode cmode bmode uuid n
      = Inl IndexError"
proof -
  from assms have "concat predictions = []" by simp
  then show ?thesis
    by (simp add: resolve_batch_consensus_def get_parent_id_none)
qed

text \<open>
  Claim C9. When every prediction source handed to the consensus is an empty list of
  detections, the parent-id extraction takes the first element of an empty collection:
  \<open>resolve_batch_consensus\<close> and with it the consensus step end with \<open>IndexError\<close>,
  not with an empty consensus and not with an \<open>ExecutionGraphError\<close>.
\<close>

theorem empty_sources_index_error:
  "((\<forall>s\<in>set predictions. s = []) \<longrightarrow>
      resolve_batch_consensus predictions required_votes class_aware iou_threshold
        confidence_threshold classes_to_consider required_objects pmode cmode bmode uuid n
      = Inl IndexError) \<and>
   (all_predictions \<noteq> [] \<and> (\<forall>v\<in>set all_predictions. v = Flat [] \<or> v = Nested []) \<longrightarrow>
      run_detections_consensus_step step_name all_predictions images required_votes class_aware
        iou_threshold confidence_threshold classes_to_consider required_objects pmode cmode
        bmode uuid n
      = Inl IndexError)"
proof (intro conjI impI)
  assume "\<forall>s\<in>set predictions. s = []"
  then show "resolve_batch_consensus predictions required_votes class_aware iou_threshold
        confidence_threshold classes_to_consider required_objects pmode cmode bmode uuid n
      = Inl IndexError"
    by (rule resolve_all_empty)
next
  assume h: "all_predictions \<noteq> [] \<and> (\<forall>v\<in>set all_predictions. v = Flat [] \<or> v = Nested [])"
  then obtain k where k: "length all_predictions = Suc k"
    by (cases all_predictions) auto
  from h have sizes: "get_and_validate_batch_sizes all_predictions step_name
      = Inr (replicate (length all_predictions) 1)"
    by (simp add: get_and_validate_batch_sizes_def batch_sizes_all_empty
        all_batch_sizes_equal_replicate)
  have els: "map_result (batch_element 1 0) all_predictions
      = Inr (replicate (length all_predictions) [])"
    by (rule map_result_all_empty) (use h in blast)
  have res: "resolve_batch_consensus (replicate (length all_predictions) []) required_votes
        class_aware iou_threshold confidence_threshold classes_to_consider required_objects
        pmode cmode bmode uuid n = Inl IndexError"
    by (rule resolve_all_empty) simp
  have batch: "consensus_over_batch all_predictions images 1 required_votes class_aware
        iou_threshold confidence_threshold classes_to_consider required_objects pmode cmode
        bmode uuid [0] n = Inl IndexError"
    by (simp only: consensus_over_batch.simps els res sum.case)
  show "run_detections_consensus_step step_name all_predictions images required_votes
        class_aware iou_threshold confidence_threshold classes_to_consider required_objects
        pmode cmode bmode uuid n = Inl IndexError"
    unfolding run_detections_consensus_step_def sizes
    using k batch by simp
qed

theorem empty_sources_index_error_witness:
  "concat [[], [] :: detection list] = [] \<and>
   resolve_batch_consensus [[], []] 1 False (3 / 10) (3 / 10) None None
      AggAverage AggAverage AggAverage example_uuid4 0 = Inl IndexError \<and>
   [Flat [], Flat []] \<noteq> [] \<and>
   run_detections_consensus_step ''consensus'' [Flat [], Flat []] (ImageMeta ()) 1 False
      (3 / 10) (3 / 10) None None AggAverage AggAverage AggAverage example_uuid4 0
     = Inl IndexError"
proof -
  have h1: "\<forall>s\<in>set [[], [] :: detection list]. s = []" by simp
  have h2: "[Flat [], Flat []] \<noteq> [] \<and>
      (\<forall>v\<in>set [Flat [], Flat []]. v = Flat [] \<or> v = Nested [])" by simp
  note t1 = empty_sources_index_error [where predictions = "[[], []]" and required_votes = 1
      and class_aware = False and iou_threshold = "3 / 10" and confidence_threshold = "3 / 10"
      and classes_to_consider = None and required_objects = None and pmode = AggAverage
      and cmode = AggAverage and bmode = AggAverage and uuid = example_uuid4 and n = 0,
      THEN conjunct1, THEN mp, OF h1]
  note t2 = empty_sources_index_error [where all_predictions = "[Flat [], Flat []]"
      and step_name = "''consensus''" and images = "ImageMeta ()" and required_votes = 1
      and class_aware = False and iou_threshold = "3 / 10" and confidence_threshold = "3 / 10"
      and classes_to_consider = None and required_objects = None and pmode = AggAverage
      and cmode = AggAverage and bmode = AggAverage and uuid = example_uuid4 and n = 0,
      THEN conjunct2, THEN mp, OF h2]
  have e: "concat [[], [] :: detection list] = []" by simp
  show ?thesis
    by (rule conjI [OF e conjI [OF t1 conjI [OF h2 [THEN conjunct1] t2]]])
qed

subsection \<open>Class-aware presence without a per-class mapping\<close>

lemma presence_class_aware_not_mapping:
  assumes "consensus_detections \<noteq> []"
  shows "check_objects_presence_in_consensus_predictions consensus_detections True
           aggregation_mode None = Inl AttributeError"
    and "check_objects_presence_in_consensus_predictions consensus_detections True
           aggregation_mode (Some (RequiredCount k)) = Inl AttributeError"
  using assms by (simp_all add: check_objects_presence_in_consensus_predictions_def)

text \<open>
  Claim C10. In class-aware mode with at least one consensus detection, an omitted
  \<open>required_objects\<close> is replaced by the integer 0, whose \<open>items\<close> are then asked for:
  the presence check, and with it \<open>resolve_batch_consensus\<close>, ends with
  \<open>AttributeError\<close>. With at least one consensus detection a class-aware verdict is only
  returned when \<open>required_objects\<close> is a per-class mapping.
\<close>

theorem class_aware_presence_needs_mapping:
  "class_aware \<and> consensus_detections \<noteq> [] \<longrightarrow>
     check_objects_presence_in_consensus_predictions consensus_detections class_aware
       aggregation_mode None = Inl AttributeError \<and>
     (\<forall>verdict.
        check_objects_presence_in_consensus_predictions consensus_detections class_aware
          aggregation_mode required_objects = Inr verdict \<longrightarrow>
        (\<exists>m. required_objects = Some (RequiredPerClass m))) \<and>
     (\<forall>pid considered n'.
        get_parent_id_of_predictions_from_different_sources predictions = Inr pid \<and>
        consensus_loop (filter_predictions predictions 0 classes_to_consider) required_votes
          class_aware iou_threshold confidence_threshold cmode bmode uuid
          (enumerate_detections (filter_predictions predictions 0 classes_to_consider) None)
          ([], {}, n) = Inr (consensus_detections, considered, n') \<longrightarrow>
        resolve_batch_consensus predictions required_votes class_aware iou_threshold
          confidence_threshold classes_to_consider None aggregation_mode cmode bmode uuid n
        = Inl AttributeError)"
proof (intro impI, elim conjE, intro conjI allI impI)
  assume ca: class_aware and ne: "consensus_detections \<noteq> []"
  show "check_objects_presence_in_consensus_predictions consensus_detections class_aware
       aggregation_mode None = Inl AttributeError"
    using ca presence_class_aware_not_mapping(1) [OF ne] by simp
next
  fix verdict
  assume ca: class_aware and ne: "consensus_detections \<noteq> []"
    and v: "check_objects_presence_in_consensus_predictions consensus_detections class_aware
          aggregation_mode required_objects = Inr verdict"
  show "\<exists>m. required_objects = Some (RequiredPerClass m)"
  proof (cases required_objects)
    case None
    with v ca presence_class_aware_not_mapping(1) [OF ne, of aggregation_mode]
    show ?thesis by simp
  next
    case (Some r)
    show ?thesis
    proof (cases r)
      case (RequiredCount k)
      with Some v ca presence_class_aware_not_mapping(2) [OF ne, of aggregation_mode k]
      show ?thesis by simp
    next
      case (RequiredPerClass m)
      with Some show ?thesis by simp
    qed
  qed
next
  fix pid considered n'
  assume ca: class_aware and ne: "consensus_detections \<noteq> []"
    and h: "get_parent_id_of_predictions_from_different_sources predictions = Inr pid \<and>
        consensus_loop (filter_predictions predictions 0 classes_to_consider) required_votes
          class_aware iou_threshold confidence_threshold cmode bmode uuid
          (enumerate_detections (filter_predictions predictions 0 classes_to_consider) None)
          ([], {}, n) = Inr (consensus_detections, considered, n')"
  show "resolve_batch_consensus predictions required_votes class_aware iou_threshold
          confidence_threshold classes_to_consider None aggregation_mode cmode bmode uuid n
        = Inl AttributeError"
    using h ca presence_class_aware_not_mapping(1) [OF ne, of aggregation_mode]
    by (simp add: resolve_batch_consensus_def)
qed


theorem class_aware_presence_needs_mapping_witness:
  "(True \<and> [example_detection ''u'' ''image-1'' ''cat'' (9 / 10) 50] \<noteq> []) \<and>
   check_objects_presence_in_consensus_predictions
     [example_detection ''u'' ''image-1'' ''cat'' (9 / 10) 50] True AggMax None
     = Inl AttributeError \<and>
   resolve_batch_consensus [[example_detection ''a'' ''image-1'' ''cat'' (9 / 10) 50]]
     1 True (3 / 10) (3 / 10) None None AggMax AggAverage AggAverage example_uuid4 0
     = Inl AttributeError"
proof -
  let ?ps = "[[example_detection ''a'' ''image-1'' ''cat'' (9 / 10) 50]]"
  let ?cds = "[example_detection ''u'' ''image-1'' ''cat'' (9 / 10) 50]"
  have h: "True \<and> ?cds \<noteq> []" by simp
  have p: "get_parent_id_of_predictions_from_different_sources ?ps = Inr ''image-1''"
    by (simp add: eval_defs)
  have l: "consensus_loop (filter_predictions ?ps 0 None) 1 True (3 / 10) (3 / 10)
      AggAverage AggAverage example_uuid4
      (enumerate_detections (filter_predictions ?ps 0 None) None) ([], {}, 0)
      = Inr (?cds, {''a''}, 1)"
    by (simp add: eval_defs)
  note t = class_aware_presence_needs_mapping [where class_aware = True
      and consensus_detections = ?cds and aggregation_mode = AggMax
      and predictions = ?ps and classes_to_consider = None and required_votes = 1
      and iou_threshold = "3 / 10" and confidence_threshold = "3 / 10"
      and cmode = AggAverage and bmode = AggAverage and uuid = example_uuid4 and n = 0,
      THEN mp, OF h]
  from t have c1: "check_objects_presence_in_consensus_predictions ?cds True AggMax None
     = Inl AttributeError" by blast
  from t p l have c2: "resolve_batch_consensus ?ps 1 True (3 / 10) (3 / 10) None None
      AggMax AggAverage AggAverage example_uuid4 0 = Inl AttributeError" by blast
  show ?thesis using h c1 c2 by blast
qed

subsection \<open>Provenance of crops and of offset detections\<close>

text \<open>
  Claim C7, as the code has it. The crop cut for a detection carries as its \<open>parent_id\<close>
  the detection's own identifier (its \<open>detection_id\<close>), whatever the detection's
  \<open>parent_id\<close> is. The detection returned by \<open>offset_detection\<close> carries the newly drawn
  identifier, and its \<open>parent_id\<close> is the identifier of the detection it was made from.
\<close>

theorem crop_and_offset_provenance:
  "map crop_parent_id (crop_image numpy_object img detections origin)
     = map detection_id detections \<and>
   detection_id (offset_detection detection offset_x offset_y new_id) = new_id \<and>
   parent_id (offset_detection detection offset_x offset_y new_id) = detection_id detection"
  by (simp add: crop_image_def offset_detection_def Let_def split_def)

text \<open>
  The claim as first stated asks the crop to carry the \<open>parent_id\<close> of its detection. A
  detection with identifier \<open>det-7\<close> and \<open>parent_id\<close> \<open>d1\<close> gives a crop whose \<open>parent_id\<close>
  is \<open>det-7\<close>.
\<close>

theorem crop_parent_id_counterexample:
  "parent_id (example_detection ''det-7'' ''d1'' ''cat'' (9 / 10) 50) = ''d1'' \<and>
   map crop_parent_id
     (crop_image () [[0 :: nat]] [example_detection ''det-7'' ''d1'' ''cat'' (9 / 10) 50] ())
   = [''det-7''] \<and> ''det-7'' \<noteq> ''d1''"
  by (simp add: crop_image_def example_detection_def Let_def split_def)

subsection \<open>The presence verdict\<close>

lemma set_update_subset: "set (AList.update k v al) \<subseteq> insert (k, v) (set al)"
  by (induction al) auto

lemma group_by_class_Cons:
  "group_by_class (d # ds) m =
     group_by_class ds
       (AList.update (class_name d)
          ((case map_of m (class_name d) of None \<Rightarrow> [] | Some v \<Rightarrow> v) @ [d]) m)"
  by (simp add: defaultdict_get_def split: option.splits)

lemma map_of_group_by_class:
  "map_of (group_by_class ds m) c =
     (if map_of m c = None \<and> filter (\<lambda>d. class_name d = c) ds = [] then None
      else Some ((case map_of m c of None \<Rightarrow> [] | Some v \<Rightarrow> v)
                 @ filter (\<lambda>d. class_name d = c) ds))"
proof (induction ds arbitrary: m)
  case Nil
  then show ?case by (cases "map_of m c") auto
next
  case (Cons d ds)
  show ?case
  proof (cases "class_name d = c")
    case True
    then show ?thesis
      by (cases "map_of m c")
         (simp_all add: group_by_class_Cons Cons.IH update_conv' del: group_by_class.simps)
  next
    case False
    then show ?thesis
      by (simp add: group_by_class_Cons Cons.IH update_conv' del: group_by_class.simps)
  qed
qed

lemma group_by_class_nonempty:
  "\<forall>p\<in>set m. snd p \<noteq> [] \<Longrightarrow> \<forall>p\<in>set (group_by_class ds m). snd p \<noteq> []"
proof (induction ds arbitrary: m)
  case Nil
  then show ?case by simp
next
  case (Cons d ds)
  let ?v = "(case map_of m (class_name d) of None \<Rightarrow> [] | Some v \<Rightarrow> v) @ [d]"
  have "set (AList.update (class_name d) ?v m) \<subseteq> insert (class_name d, ?v) (set m)"
    by (rule set_update_subset)
  then have "\<forall>p\<in>set (AList.update (class_name d) ?v m). snd p \<noteq> []"
    using Cons.prems by fastforce
  then show ?case
    unfolding group_by_class_Cons by (rule Cons.IH)
qed

lemma required_classes_present_no_insert:
  "list_all (\<lambda>(c, k). 1 \<le> k \<or> map_of G c \<noteq> None) m \<Longrightarrow>
   required_classes_present m G =
     (if list_all (\<lambda>(c, k). k \<le> int (length (case map_of G c of None \<Rightarrow> [] | Some v \<Rightarrow> v))) m
      then Some G else None)"
proof (induction m)
  case Nil
  then show ?case by simp
next
  case (Cons a m)
  obtain c k where a: "a = (c, k)" by (cases a) auto
  show ?case
  proof (cases "map_of G c")
    case None
    with Cons.prems a have "1 \<le> k" by simp
    with None a show ?thesis by (simp add: defaultdict_get_def)
  next
    case (Some v)
    with Cons a show ?thesis by (simp add: defaultdict_get_def)
  qed
qed

lemma field_aggregator_nonempty: "vs \<noteq> [] \<Longrightarrow> \<exists>r. field_aggregator mode vs = Inr r"
  by (cases vs; cases mode) auto

lemma class2confidence_nonempty:
  "\<forall>p\<in>set G. snd p \<noteq> [] \<Longrightarrow> \<exists>r. class2confidence mode G = Inr r"
proof (induction G)
  case Nil
  then show ?case by simp
next
  case (Cons a G)
  obtain c ds where a: "a = (c, ds)" by (cases a) auto
  with Cons.prems have "map confidence ds \<noteq> []" by simp
  then obtain v where "field_aggregator mode (map confidence ds) = Inr v"
    using field_aggregator_nonempty by blast
  moreover obtain r where "class2confidence mode G = Inr r"
    using Cons by auto
  ultimately show ?case
    using a by (simp add: aggregate_field_values_def)
qed

lemma presence_class_aware_mapping:
  assumes ne: "consensus_detections \<noteq> []"
    and ok: "list_all (\<lambda>(c, k). 1 \<le> k \<or> 0 < class_count c consensus_detections) m"
  shows "\<exists>present confidences.
           check_objects_presence_in_consensus_predictions consensus_detections True
             aggregation_mode (Some (RequiredPerClass m)) = Inr (present, confidences) \<and>
           (present \<longleftrightarrow> reaches_minimums m consensus_detections) \<and>
           (\<not> present \<longrightarrow> confidences = [])"
proof -
  let ?G = "group_by_class consensus_detections []"
  have look: "\<And>c. map_of ?G c =
      (if filter (\<lambda>d. class_name d = c) consensus_detections = [] then None
       else Some (filter (\<lambda>d. class_name d = c) consensus_detections))"
    by (simp add: map_of_group_by_class)
  have len: "\<And>c. int (length (case map_of ?G c of None \<Rightarrow> [] | Some v \<Rightarrow> v))
      = class_count c consensus_detections"
    by (simp add: look class_count_def)
  have pres: "\<And>c. map_of ?G c \<noteq> None \<longleftrightarrow> 0 < class_count c consensus_detections"
    by (simp add: look class_count_def)
  from ok have "list_all (\<lambda>(c, k). 1 \<le> k \<or> map_of ?G c \<noteq> None) m"
    by (simp add: pres del: not_None_eq)
  then have req: "required_classes_present m ?G =
      (if reaches_minimums m consensus_detections then Some ?G else None)"
    by (simp add: required_classes_present_no_insert len reaches_minimums_def)
  have "\<forall>p\<in>set ?G. snd p \<noteq> []"
    by (rule group_by_class_nonempty) simp
  then obtain r where r: "class2confidence aggregation_mode ?G = Inr r"
    using class2confidence_nonempty by blast
  show ?thesis
    using ne req r
    by (simp add: check_objects_presence_in_consensus_predictions_def)
qed

text \<open>
  The reads of the \<open>defaultdict\<close> in the loop over the required classes do not change
  what later reads return, so the loop ends early exactly when some named class falls short
  of its minimum.
\<close>

lemma defaultdict_get_lookup:
  assumes "defaultdict_get G c = (v, G')"
  shows "v = (case map_of G c of None \<Rightarrow> [] | Some w \<Rightarrow> w)"
    and "(case map_of G' c' of None \<Rightarrow> [] | Some w \<Rightarrow> w)
           = (case map_of G c' of None \<Rightarrow> [] | Some w \<Rightarrow> w)"
  using assms
  by (auto simp: defaultdict_get_def update_conv' split: option.splits if_splits)

lemma required_classes_present_None_iff:
  "required_classes_present m G = None \<longleftrightarrow>
     \<not> list_all (\<lambda>(c, k). k \<le> int (length (case map_of G c of None \<Rightarrow> [] | Some w \<Rightarrow> w))) m"
proof (induction m arbitrary: G)
  case Nil
  then show ?case by simp
next
  case (Cons a m)
  obtain c k where a: "a = (c, k)" by (cases a) auto
  obtain v G' where g: "defaultdict_get G c = (v, G')"
    by (cases "defaultdict_get G c") auto
  have v: "v = (case map_of G c of None \<Rightarrow> [] | Some w \<Rightarrow> w)"
    by (rule defaultdict_get_lookup(1) [OF g])
  have same: "\<And>c'. (case map_of G' c' of None \<Rightarrow> [] | Some w \<Rightarrow> w)
           = (case map_of G c' of None \<Rightarrow> [] | Some w \<Rightarrow> w)"
    by (rule defaultdict_get_lookup(2) [OF g])
  show ?case
    by (simp add: a g Cons.IH [of G'] same) (simp add: v)
qed

text \<open>
  An empty list of consensus detections gives the verdict (not present, empty confidence
  map). For a list that is not empty, in class-aware mode with a per-class mapping, every
  verdict that is returned is present exactly when every named class reaches its minimum,
  and a verdict that is not present comes with the empty confidence map.
\<close>

lemma presence_empty:
  "check_objects_presence_in_consensus_predictions [] class_aware aggregation_mode
     required_objects = Inr (False, [])"
  by (simp add: check_objects_presence_in_consensus_predictions_def)

lemma presence_verdict_when_returned:
  assumes ne: "consensus_detections \<noteq> []"
    and r: "check_objects_presence_in_consensus_predictions consensus_detections True
              aggregation_mode (Some (RequiredPerClass m)) = Inr (present, confidences)"
  shows "(present \<longleftrightarrow> reaches_minimums m consensus_detections) \<and>
         (\<not> present \<longrightarrow> confidences = [])"
proof -
  let ?G = "group_by_class consensus_detections []"
  have len: "\<And>c. int (length (case map_of ?G c of None \<Rightarrow> [] | Some w \<Rightarrow> w))
      = class_count c consensus_detections"
    by (simp add: map_of_group_by_class class_count_def)
  have none: "required_classes_present m ?G = None
      \<longleftrightarrow> \<not> reaches_minimums m consensus_detections"
    by (simp add: required_classes_present_None_iff len reaches_minimums_def)
  show ?thesis
  proof (cases "required_classes_present m ?G")
    case None
    with r ne none show ?thesis
      by (simp add: check_objects_presence_in_consensus_predictions_def)
  next
    case (Some G')
    with none have reach: "reaches_minimums m consensus_detections" by simp
    from r ne Some have "present"
      by (auto simp: check_objects_presence_in_consensus_predictions_def
          split: sum.splits)
    with reach show ?thesis by simp
  qed
qed

text \<open>
  Claim C8 asks, in class-aware mode with a per-class mapping, for the verdict present
  whenever every named class reaches its minimum. The code returns that verdict wherever it
  returns one, but not always: the read of \<open>class2detections\<close> for a named class without
  consensus detections stores an empty list under that class, and when the minimum of the
  class is zero the loop goes on and the confidence of the class is aggregated over the
  empty list. With one consensus detection of class \<open>cat\<close> and the mapping that asks for at
  least zero detections of class \<open>dog\<close>, every named class reaches its minimum, and the
  check raises \<open>ValueError\<close> (aggregation \<open>MAX\<close> or \<open>MIN\<close>) or \<open>StatisticsError\<close>
  (aggregation \<open>AVERAGE\<close>) where the claim has the verdict present; asking for one \<open>cat\<close>
  on the same list gives the verdict present.
\<close>

theorem presence_raises_for_absent_class:
  "reaches_minimums [(''dog'', 0)] [example_detection ''u'' ''image-1'' ''cat'' (9 / 10) 50] \<and>
   check_objects_presence_in_consensus_predictions
     [example_detection ''u'' ''image-1'' ''cat'' (9 / 10) 50] True AggMax
     (Some (RequiredPerClass [(''dog'', 0)])) = Inl ValueError \<and>
   check_objects_presence_in_consensus_predictions
     [example_detection ''u'' ''image-1'' ''cat'' (9 / 10) 50] True AggMin
     (Some (RequiredPerClass [(''dog'', 0)])) = Inl ValueError \<and>
   check_objects_presence_in_consensus_predictions
     [example_detection ''u'' ''image-1'' ''cat'' (9 / 10) 50] True AggAverage
     (Some (RequiredPerClass [(''dog'', 0)])) = Inl StatisticsError \<and>
   check_objects_presence_in_consensus_predictions
     [example_detection ''u'' ''image-1'' ''cat'' (9 / 10) 50] True AggMax
     (Some (RequiredPerClass [(''cat'', 1)])) = Inr (True, [(''cat'', 9 / 10)])"
  by (simp add: eval_defs reaches_minimums_def class_count_def)



subsection \<open>Which exceptions the consensus can raise\<close>

lemma calculate_iou_error: "calculate_iou a b = Inl e \<Longrightarrow> e = ZeroDivisionError"
  by (auto simp: calculate_iou_def Let_def split: prod.splits if_splits)

lemma max_overlap_scan_error:
  "max_overlap_scan d thr ca considered others current = Inl e \<Longrightarrow> e = ZeroDivisionError"
proof (induction others arbitrary: current)
  case Nil
  then show ?case by simp
next
  case (Cons a others)
  obtain s od where a: "a = (s, od)" by (cases a) auto
  show ?case
  proof (cases "calculate_iou d od")
    case (Inl e')
    with Cons a show ?thesis
      by (auto simp: calculate_iou_error split: if_splits)
  next
    case (Inr v)
    with Cons a show ?thesis
      by (simp add: Let_def split: if_splits)
  qed
qed

lemma field_aggregator_error: "field_aggregator mode vs = Inl e \<Longrightarrow> \<not> is_graph_error e"
  by (cases vs; cases mode) (auto simp: is_graph_error_def)

lemma class_selector_error: "class_selector mode ds = Inl e \<Longrightarrow> \<not> is_graph_error e"
  by (cases mode)
     (auto simp: get_majority_class_def get_class_of_most_confident_detection_def
        get_class_of_least_confident_detection_def aggregate_field_values_def
        is_graph_error_def
        dest: field_aggregator_error split: sum.splits list.splits prod.splits)

lemma boxes_aggregator_error: "boxes_aggregator mode ds = Inl e \<Longrightarrow> \<not> is_graph_error e"
  by (cases mode)
     (auto simp: get_average_bounding_box_def get_smallest_bounding_box_def
        get_largest_bounding_box_def average_field_values_def Let_def is_graph_error_def
        dest: field_aggregator_error split: sum.splits list.splits prod.splits)

lemma merge_detections_error:
  "merge_detections ds cmode bmode new_id = Inl e \<Longrightarrow> \<not> is_graph_error e"
  by (auto simp: merge_detections_def aggregate_field_values_def is_graph_error_def
      dest: class_selector_error boxes_aggregator_error field_aggregator_error
      split: sum.splits list.splits prod.splits)

lemma consensus_iteration_error:
  "consensus_iteration ps rv ca thr conf cmode bmode uuid st seed = Inl e
   \<Longrightarrow> \<not> is_graph_error e"
  by (auto simp: consensus_iteration_def
      get_detections_from_different_sources_with_max_overlap_def is_graph_error_def
      dest: max_overlap_scan_error merge_detections_error
      split: sum.splits prod.splits if_splits)

lemma consensus_loop_error:
  "consensus_loop ps rv ca thr conf cmode bmode uuid seeds st = Inl e
   \<Longrightarrow> \<not> is_graph_error e"
proof (induction seeds arbitrary: st)
  case Nil
  then show ?case by simp
next
  case (Cons seed seeds)
  then show ?case
    by (auto dest: consensus_iteration_error split: sum.splits)
qed

lemma class2confidence_error: "class2confidence mode G = Inl e \<Longrightarrow> \<not> is_graph_error e"
proof (induction G)
  case Nil
  then show ?case by simp
next
  case (Cons a G)
  then show ?case
    by (cases a)
       (auto simp: aggregate_field_values_def dest: field_aggregator_error
          split: sum.splits)
qed

lemma check_presence_error:
  "check_objects_presence_in_consensus_predictions cds ca mode ro = Inl e
   \<Longrightarrow> \<not> is_graph_error e"
  by (auto simp: check_objects_presence_in_consensus_predictions_def Let_def
      aggregate_field_values_def is_graph_error_def
      dest: field_aggregator_error class2confidence_error
      split: if_splits option.splits required_objects.splits sum.splits)

lemma get_parent_id_error:
  "get_parent_id_of_predictions_from_different_sources ps = Inl e \<Longrightarrow>
   e = ExecutionGraphError parent_id_mismatch_message \<or> e = IndexError"
  by (auto simp: get_parent_id_of_predictions_from_different_sources_def Let_def
      split: if_splits list.splits)

lemma resolve_batch_consensus_error:
  assumes "resolve_batch_consensus ps rv ca thr conf cls ro pmode cmode bmode uuid n = Inl e"
    and "is_graph_error e"
  shows "e = ExecutionGraphError parent_id_mismatch_message"
  using assms
  by (auto simp: resolve_batch_consensus_def Let_def is_graph_error_def
      dest: get_parent_id_error consensus_loop_error check_presence_error
      split: sum.splits prod.splits)


lemma map_result_batch_element_error:
  "map_result (batch_element b i) all_predictions = Inl e \<Longrightarrow> \<not> is_graph_error e"
proof (induction all_predictions)
  case Nil
  then show ?case by simp
next
  case (Cons a all_predictions)
  then show ?case
    by (cases a) (auto simp: is_graph_error_def split: sum.splits if_splits)
qed

lemma image_of_batch_element_error:
  "image_of_batch_element b i images = Inl e \<Longrightarrow> \<not> is_graph_error e"
  by (cases images) (auto simp: is_graph_error_def split: if_splits)

lemma consensus_over_batch_error:
  "consensus_over_batch all_predictions images b rv ca thr conf cls ro pmode cmode bmode uuid
     indices n = Inl e \<Longrightarrow>
   is_graph_error e \<Longrightarrow> e = ExecutionGraphError parent_id_mismatch_message"
proof (induction indices arbitrary: n)
  case Nil
  then show ?case by simp
next
  case (Cons i indices)
  from Cons.prems show ?case
    by (auto dest: map_result_batch_element_error image_of_batch_element_error
        resolve_batch_consensus_error Cons.IH
        split: sum.splits prod.splits)
qed

lemma all_batch_sizes_equal_iff:
  "all_batch_sizes_equal batch_sizes \<longleftrightarrow> (\<forall>a\<in>set batch_sizes. \<forall>b\<in>set batch_sizes. a = b)"
proof (cases batch_sizes)
  case Nil
  then show ?thesis by simp
next
  case (Cons r rest)
  have "list_all (\<lambda>e. e = r) (r # rest) \<longleftrightarrow> (\<forall>a\<in>set (r # rest). a = r)"
    by (simp add: list_all_iff)
  also have "\<dots> \<longleftrightarrow> (\<forall>a\<in>set (r # rest). \<forall>b\<in>set (r # rest). a = b)"
    using list.set_intros(1) [of r rest] by metis
  finally show ?thesis using Cons by simp
qed

lemma dimension_mismatch_message_distinct:
  "dimension_mismatch_message step_name \<noteq> parent_id_mismatch_message"
  "dimension_mismatch_message step_name
     \<noteq> ''Consensus step requires at least one source of predictions.''"
  by (simp_all add: dimension_mismatch_message_def parent_id_mismatch_message_def)


lemma run_detections_consensus_step_error:
  assumes eq: "all_batch_sizes_equal (get_predictions_batch_sizes all_predictions)"
    and r: "run_detections_consensus_step step_name all_predictions images rv ca thr conf cls
              ro pmode cmode bmode uuid n = Inl e"
    and g: "is_graph_error e"
  shows "e = ExecutionGraphError ''Consensus step requires at least one source of predictions.''
         \<or> e = ExecutionGraphError parent_id_mismatch_message"
proof (cases "length all_predictions < 1")
  case True
  with r show ?thesis
    by (simp add: run_detections_consensus_step_def)
next
  case False
  let ?sizes = "get_predictions_batch_sizes all_predictions"
  have gv: "get_and_validate_batch_sizes all_predictions step_name = Inr ?sizes"
    using eq by (simp add: get_and_validate_batch_sizes_def)
  show ?thesis
  proof (cases ?sizes)
    case Nil
    with r False gv have "e = IndexError"
      by (simp add: run_detections_consensus_step_def)
    with g show ?thesis by (simp add: is_graph_error_def)
  next
    case (Cons b bs)
    show ?thesis
    proof (cases "consensus_over_batch all_predictions images b rv ca thr conf cls ro pmode
                    cmode bmode uuid [0..<b] n")
      case (Inl e')
      with r False gv Cons have "e = e'"
        by (simp add: run_detections_consensus_step_def)
      with Inl g show ?thesis
        using consensus_over_batch_error by blast
    next
      case (Inr p)
      obtain results n' where p: "p = (results, n')" by (cases p) auto
      from r False gv Cons Inr p have "e = IndexError"
        by (cases results) (simp_all add: run_detections_consensus_step_def split: if_splits)
      with g show ?thesis by (simp add: is_graph_error_def)
    qed
  qed
qed

subsection \<open>Batch sizes of the prediction sources\<close>

text \<open>
  Claim C6. When the batch sizes inferred for the prediction sources are not all equal, the
  consensus step raises \<open>ExecutionGraphError\<close> with the message that names the step.
  When they are all equal, the validation returns the batch sizes and the step does not end
  with that error.
\<close>

theorem batch_size_validation:
  "((\<exists>a\<in>set (get_predictions_batch_sizes all_predictions).
      \<exists>b\<in>set (get_predictions_batch_sizes all_predictions). a \<noteq> b) \<longrightarrow>
      run_detections_consensus_step step_name all_predictions images required_votes class_aware
        iou_threshold confidence_threshold classes_to_consider required_objects pmode cmode
        bmode uuid n
      = Inl (ExecutionGraphError (dimension_mismatch_message step_name))) \<and>
   ((\<forall>a\<in>set (get_predictions_batch_sizes all_predictions).
      \<forall>b\<in>set (get_predictions_batch_sizes all_predictions). a = b) \<longrightarrow>
      get_and_validate_batch_sizes all_predictions step_name
        = Inr (get_predictions_batch_sizes all_predictions) \<and>
      run_detections_consensus_step step_name all_predictions images required_votes class_aware
        iou_threshold confidence_threshold classes_to_consider required_objects pmode cmode
        bmode uuid n
      \<noteq> Inl (ExecutionGraphError (dimension_mismatch_message step_name)))"
proof (intro conjI impI)
  assume h: "\<exists>a\<in>set (get_predictions_batch_sizes all_predictions).
      \<exists>b\<in>set (get_predictions_batch_sizes all_predictions). a \<noteq> b"
  then have ne: "\<not> all_batch_sizes_equal (get_predictions_batch_sizes all_predictions)"
    by (simp add: all_batch_sizes_equal_iff)
  from h have "all_predictions \<noteq> []"
    by (auto simp: get_predictions_batch_sizes_def)
  then have len: "\<not> length all_predictions < 1" by (cases all_predictions) auto
  show "run_detections_consensus_step step_name all_predictions images required_votes
        class_aware iou_threshold confidence_threshold classes_to_consider required_objects
        pmode cmode bmode uuid n
      = Inl (ExecutionGraphError (dimension_mismatch_message step_name))"
    using ne len
    by (simp add: run_detections_consensus_step_def get_and_validate_batch_sizes_def
        dimension_mismatch_message_def)
next
  assume h: "\<forall>a\<in>set (get_predictions_batch_sizes all_predictions).
      \<forall>b\<in>set (get_predictions_batch_sizes all_predictions). a = b"
  then have eq: "all_batch_sizes_equal (get_predictions_batch_sizes all_predictions)"
    by (simp add: all_batch_sizes_equal_iff)
  then show "get_and_validate_batch_sizes all_predictions step_name
        = Inr (get_predictions_batch_sizes all_predictions)"
    by (simp add: get_and_validate_batch_sizes_def)
next
  assume h: "\<forall>a\<in>set (get_predictions_batch_sizes all_predictions).
      \<forall>b\<in>set (get_predictions_batch_sizes all_predictions). a = b"
  then have eq: "all_batch_sizes_equal (get_predictions_batch_sizes all_predictions)"
    by (simp add: all_batch_sizes_equal_iff)
  show "run_detections_consensus_step step_name all_predictions images required_votes
        class_aware iou_threshold confidence_threshold classes_to_consider required_objects
        pmode cmode bmode uuid n
      \<noteq> Inl (ExecutionGraphError (dimension_mismatch_message step_name))"
  proof
    assume r: "run_detections_consensus_step step_name all_predictions images required_votes
        class_aware iou_threshold confidence_threshold classes_to_consider required_objects
        pmode cmode bmode uuid n
      = Inl (ExecutionGraphError (dimension_mismatch_message step_name))"
    have g: "is_graph_error (ExecutionGraphError (dimension_mismatch_message step_name))"
      by (simp add: is_graph_error_def)
    from run_detections_consensus_step_error [OF eq r g] show False
      using dimension_mismatch_message_distinct [of step_name] by auto
  qed
qed

theorem batch_size_validation_witness:
  "(\<exists>a\<in>set (get_predictions_batch_sizes
        [Nested [[], []], Nested [[], [], []]]).
      \<exists>b\<in>set (get_predictions_batch_sizes
        [Nested [[], []], Nested [[], [], []]]). a \<noteq> b) \<and>
   get_predictions_batch_sizes [Nested [[], []], Nested [[], [], []]] = [2, 3] \<and>
   run_detections_consensus_step ''consensus'' [Nested [[], []], Nested [[], [], []]]
     (ImageMetaBatch [(), ()]) 1 False (3 / 10) (3 / 10) None None
     AggAverage AggAverage AggAverage example_uuid4 0
     = Inl (ExecutionGraphError ''Detected missmatch of input dimensions in step: consensus'') \<and>
   get_predictions_batch_sizes
     [Flat [example_detection ''a'' ''image-1'' ''cat'' (9 / 10) 50], Flat []] = [1, 1] \<and>
   get_and_validate_batch_sizes
     [Flat [example_detection ''a'' ''image-1'' ''cat'' (9 / 10) 50], Flat []] ''consensus''
     = Inr [1, 1] \<and>
   run_detections_consensus_step ''consensus''
     [Flat [example_detection ''a'' ''image-1'' ''cat'' (9 / 10) 50], Flat []]
     (ImageMeta ()) 1 False (3 / 10) (3 / 10) None None
     AggAverage AggAverage AggAverage example_uuid4 0
     \<noteq> Inl (ExecutionGraphError ''Detected missmatch of input dimensions in step: consensus'')"
proof -
  let ?bad = "[Nested [[], []], Nested [[], [], []]]"
  let ?good = "[Flat [example_detection ''a'' ''image-1'' ''cat'' (9 / 10) 50], Flat []]"
  have s1: "get_predictions_batch_sizes ?bad = [2, 3]"
    by (simp add: get_predictions_batch_sizes_def)
  have s2: "get_predictions_batch_sizes ?good = [1, 1]"
    by (simp add: get_predictions_batch_sizes_def)
  have h1: "\<exists>a\<in>set (get_predictions_batch_sizes ?bad).
      \<exists>b\<in>set (get_predictions_batch_sizes ?bad). a \<noteq> b"
    unfolding s1 by (rule bexI [of _ 2], rule bexI [of _ 3]) simp_all
  have h2: "\<forall>a\<in>set (get_predictions_batch_sizes ?good).
      \<forall>b\<in>set (get_predictions_batch_sizes ?good). a = b"
    unfolding s2 by simp
  have m: "dimension_mismatch_message ''consensus''
      = ''Detected missmatch of input dimensions in step: consensus''"
    by (simp add: dimension_mismatch_message_def)
  note t1 = batch_size_validation [where all_predictions = ?bad
      and step_name = "''consensus''" and images = "ImageMetaBatch [(), ()]"
      and required_votes = 1
      and class_aware = False and iou_threshold = "3 / 10" and confidence_threshold = "3 / 10"
      and classes_to_consider = None and required_objects = None and pmode = AggAverage
      and cmode = AggAverage and bmode = AggAverage and uuid = example_uuid4 and n = 0,
      THEN conjunct1, THEN mp, OF h1, unfolded m]
  note t2 = batch_size_validation [where all_predictions = ?good
      and step_name = "''consensus''" and images = "ImageMeta ()" and required_votes = 1
      and class_aware = False and iou_threshold = "3 / 10" and confidence_threshold = "3 / 10"
      and classes_to_consider = None and required_objects = None and pmode = AggAverage
      and cmode = AggAverage and bmode = AggAverage and uuid = example_uuid4 and n = 0,
      THEN conjunct2, THEN mp, OF h2, unfolded m s2]
  show ?thesis
    by (rule conjI [OF h1 conjI [OF s1 conjI [OF t1 conjI [OF s2 t2]]]])
qed


subsection \<open>Consumed detections\<close>

text \<open>
  Claim C1 asks that a detection accepted into a consensus detection neither contributes to
  nor seeds a later group. The loop of \<open>resolve_batch_consensus\<close> looks the candidates of
  the other sources up in \<open>detections_already_considered\<close>, but never the seed. With two
  sources holding one detection each on the same box and one required vote, the first
  iteration merges \<open>a\<close> with \<open>b\<close> and marks both; the second iteration takes \<open>b\<close> as its
  seed all the same and accepts it alone, so \<open>b\<close> is in two accepted groups and the
  consensus has two detections.
\<close>

theorem consumed_detection_seeds_again:
  "consensus_iteration
     [[example_detection ''a'' ''image-1'' ''cat'' (9 / 10) 50],
      [example_detection ''b'' ''image-1'' ''cat'' (8 / 10) 50]]
     1 False (3 / 10) (3 / 10) AggAverage AggAverage example_uuid4 ([], {}, 0)
     (0, example_detection ''a'' ''image-1'' ''cat'' (9 / 10) 50)
   = Inr ([example_detection ''u'' ''image-1'' ''cat'' (17 / 20) 50], {''a'', ''b''}, 1) \<and>
   consensus_iteration
     [[example_detection ''a'' ''image-1'' ''cat'' (9 / 10) 50],
      [example_detection ''b'' ''image-1'' ''cat'' (8 / 10) 50]]
     1 False (3 / 10) (3 / 10) AggAverage AggAverage example_uuid4
     ([example_detection ''u'' ''image-1'' ''cat'' (17 / 20) 50], {''a'', ''b''}, 1)
     (1, example_detection ''b'' ''image-1'' ''cat'' (8 / 10) 50)
   = Inr ([example_detection ''u'' ''image-1'' ''cat'' (17 / 20) 50,
           example_detection ''uu'' ''image-1'' ''cat'' (8 / 10) 50], {''a'', ''b''}, 2) \<and>
   resolve_batch_consensus
     [[example_detection ''a'' ''image-1'' ''cat'' (9 / 10) 50],
      [example_detection ''b'' ''image-1'' ''cat'' (8 / 10) 50]]
     1 False (3 / 10) (3 / 10) None None AggAverage AggAverage AggAverage example_uuid4 0
   = Inr ((''image-1'', True, [(''any_object'', 33 / 40)],
           [example_detection ''u'' ''image-1'' ''cat'' (17 / 20) 50,
            example_detection ''uu'' ''image-1'' ''cat'' (8 / 10) 50]), 2)"
  by (simp add: eval_defs insert_commute)

subsection \<open>The pre-filter\<close>




subsection \<open>Two detections at confidence 0.9 and 0.2\<close>

lemma field_aggregator_single: "field_aggregator mode [v] = Inr v"
  by (cases mode) simp_all

lemma class_selector_single: "class_selector mode [d] = Inr (class_name d, class_id d)"
  by (cases mode)
     (simp_all add: get_majority_class_def get_class_of_most_confident_detection_def
        get_class_of_least_confident_detection_def aggregate_field_values_def Counter_def)

lemma boxes_aggregator_single: "\<exists>box. boxes_aggregator mode [d] = Inr box"
  by (cases mode)
     (simp_all add: get_average_bounding_box_def get_smallest_bounding_box_def
        get_largest_bounding_box_def average_field_values_def get_detection_sizes_def
        enumerate_eq_zip)

lemma merge_detections_single:
  "\<exists>m. merge_detections [d] cmode bmode new_id = Inr m \<and> confidence m = confidence d"
proof -
  obtain box where b: "boxes_aggregator bmode [d] = Inr box"
    using boxes_aggregator_single by blast
  obtain bx "by" bw bh where "box = (bx, by, bw, bh)" by (cases box) auto
  with b show ?thesis
    by (simp add: merge_detections_def class_selector_single aggregate_field_values_def
        field_aggregator_single)
qed

lemma calculate_iou_commute: "calculate_iou a b = calculate_iou b a"
  by (simp add: calculate_iou_def Let_def split_def max.commute min.commute add.commute)


lemma consensus_iteration_alone:
  assumes "get_detections_from_different_sources_with_max_overlap d s ps thr ca considered
             = Inr []"
  shows "\<exists>m. confidence m = confidence d \<and>
           consensus_iteration ps 1 ca thr conf cmode bmode uuid (cds, considered, n) (s, d)
           = Inr (if conf \<le> confidence d
                  then (cds @ [m], insert (detection_id d) considered, Suc n)
                  else (cds, considered, Suc n))"
proof -
  obtain m where m: "merge_detections [d] cmode bmode (uuid n) = Inr m"
    and c: "confidence m = confidence d"
    using merge_detections_single by blast
  show ?thesis
    using assms m c by (auto simp: consensus_iteration_def)
qed

lemma consensus_loop_two_alone:
  assumes o1: "get_detections_from_different_sources_with_max_overlap e1 s1 ps thr ca {}
                 = Inr []"
    and o2a: "get_detections_from_different_sources_with_max_overlap e2 s2 ps thr ca {}
                 = Inr []"
    and o2b: "get_detections_from_different_sources_with_max_overlap e2 s2 ps thr ca
                 {detection_id e1} = Inr []"
  shows "\<exists>m1 m2 considered k.
           confidence m1 = confidence e1 \<and> confidence m2 = confidence e2 \<and>
           consensus_loop ps 1 ca thr conf cmode bmode uuid [(s1, e1), (s2, e2)] ([], {}, n)
           = Inr ((if conf \<le> confidence e1 then [m1] else []) @
                  (if conf \<le> confidence e2 then [m2] else []), considered, k)"
proof (cases "conf \<le> confidence e1")
  case True
  obtain m1 where m1: "confidence m1 = confidence e1"
    and i1: "consensus_iteration ps 1 ca thr conf cmode bmode uuid ([], {}, n) (s1, e1)
             = Inr ([m1], {detection_id e1}, Suc n)"
    using consensus_iteration_alone [OF o1, of conf cmode bmode uuid "[]" n] True by auto
  obtain m2 where m2: "confidence m2 = confidence e2"
    and i2: "consensus_iteration ps 1 ca thr conf cmode bmode uuid
               ([m1], {detection_id e1}, Suc n) (s2, e2)
             = Inr (if conf \<le> confidence e2
                    then ([m1] @ [m2], insert (detection_id e2) {detection_id e1}, Suc (Suc n))
                    else ([m1], {detection_id e1}, Suc (Suc n)))"
    using consensus_iteration_alone [OF o2b, of conf cmode bmode uuid "[m1]" "Suc n"] by auto
  show ?thesis
    using True m1 m2 i1 i2 by (cases "conf \<le> confidence e2") auto
next
  case False
  obtain m1 where m1: "confidence m1 = confidence e1"
    and i1': "consensus_iteration ps 1 ca thr conf cmode bmode uuid ([], {}, n) (s1, e1)
             = Inr (if conf \<le> confidence e1
                    then ([] @ [m1], insert (detection_id e1) {}, Suc n)
                    else ([], {}, Suc n))"
    using consensus_iteration_alone [OF o1, of conf cmode bmode uuid "[]" n] by blast
  have i1: "consensus_iteration ps 1 ca thr conf cmode bmode uuid ([], {}, n) (s1, e1)
             = Inr ([], {}, Suc n)"
    using i1' False by simp
  obtain m2 where m2: "confidence m2 = confidence e2"
    and i2: "consensus_iteration ps 1 ca thr conf cmode bmode uuid ([], {}, Suc n) (s2, e2)
             = Inr (if conf \<le> confidence e2
                    then ([] @ [m2], insert (detection_id e2) {}, Suc (Suc n))
                    else ([], {}, Suc (Suc n)))"
    using consensus_iteration_alone [OF o2a, of conf cmode bmode uuid "[]" "Suc n"] by auto
  show ?thesis
    using False m1 m2 i1 i2 by (cases "conf \<le> confidence e2") auto
qed

lemma overlap_same_source:
  "get_detections_from_different_sources_with_max_overlap d 0 [[e1, e2]] thr ca considered
     = Inr []"
  by (simp add: get_detections_from_different_sources_with_max_overlap_def
      enumerate_detections_def enumerate_eq_zip)

lemma overlap_other_source_low_iou:
  assumes "calculate_iou d e = Inr v" and "v \<le> thr"
  shows "get_detections_from_different_sources_with_max_overlap d 0 [[d], [e]] thr ca
           considered = Inr []"
    and "get_detections_from_different_sources_with_max_overlap e (Suc 0) [[d], [e]] thr ca
           considered = Inr []"
  using assms calculate_iou_commute [of e d]
  by (simp_all add: get_detections_from_different_sources_with_max_overlap_def
      enumerate_detections_def enumerate_eq_zip)

lemma presence_not_class_aware:
  assumes "cds \<noteq> []"
  shows "\<exists>present confidences.
           check_objects_presence_in_consensus_predictions cds False mode ro
           = Inr (present, confidences)"
proof -
  from assms have "map confidence cds \<noteq> []" by simp
  then obtain v where "field_aggregator mode (map confidence cds) = Inr v"
    using field_aggregator_nonempty by blast
  with assms show ?thesis
    by (cases ro)
       (auto simp: check_objects_presence_in_consensus_predictions_def
          aggregate_field_values_def split: required_objects.splits)
qed

lemma resolve_two_alone:
  assumes par: "parent_id e1 = parent_id e2"
    and pos: "0 < confidence e1" "0 < confidence e2"
    and hi: "conf \<le> confidence e1 \<or> conf \<le> confidence e2"
    and en: "enumerate_detections ps None = [(s1, e1), (s2, e2)]"
    and cc: "concat ps = [e1, e2]"
    and o1: "get_detections_from_different_sources_with_max_overlap e1 s1 ps thr False {}
                 = Inr []"
    and o2a: "get_detections_from_different_sources_with_max_overlap e2 s2 ps thr False {}
                 = Inr []"
    and o2b: "get_detections_from_different_sources_with_max_overlap e2 s2 ps thr False
                 {detection_id e1} = Inr []"
  shows "\<exists>m1 m2 present confidences k.
           confidence m1 = confidence e1 \<and> confidence m2 = confidence e2 \<and>
           resolve_batch_consensus ps 1 False thr conf None ro pmode cmode bmode uuid n
           = Inr ((parent_id e1, present, confidences,
                   (if conf \<le> confidence e1 then [m1] else []) @
                   (if conf \<le> confidence e2 then [m2] else [])), k)"
proof -
  have pid: "get_parent_id_of_predictions_from_different_sources ps = Inr (parent_id e1)"
    using par by (simp add: get_parent_id_of_predictions_from_different_sources_def cc)
  have "\<forall>d\<in>set (concat ps). confidence_matches d 0"
    using pos by (simp add: cc confidence_matches_def)
  then have "\<forall>s\<in>set ps. filter (\<lambda>d. confidence_matches d 0) s = s"
    by (auto intro: filter_True)
  then have fil: "filter_predictions ps 0 None = ps"
    by (simp add: filter_predictions_def map_idI)
  obtain m1 m2 considered k where m: "confidence m1 = confidence e1"
      "confidence m2 = confidence e2"
    and l: "consensus_loop ps 1 False thr conf cmode bmode uuid [(s1, e1), (s2, e2)]
              ([], {}, n)
            = Inr ((if conf \<le> confidence e1 then [m1] else []) @
                   (if conf \<le> confidence e2 then [m2] else []), considered, k)"
    using consensus_loop_two_alone [OF o1 o2a o2b] by blast
  let ?cds = "(if conf \<le> confidence e1 then [m1] else []) @
              (if conf \<le> confidence e2 then [m2] else [])"
  have "?cds \<noteq> []" using hi by auto
  then obtain present confidences where
    p: "check_objects_presence_in_consensus_predictions ?cds False pmode ro
          = Inr (present, confidences)"
    using presence_not_class_aware by blast
  have "resolve_batch_consensus ps 1 False thr conf None ro pmode cmode bmode uuid n
          = Inr ((parent_id e1, present, confidences, ?cds), k)"
    unfolding resolve_batch_consensus_def pid fil Let_def en l
    by (simp only: sum.case prod.case p)
  with m show ?thesis by blast
qed

text \<open>
  Claim C4, as the code has it. Two detections of confidence 0.9 and 0.2 on the same parent,
  a confidence threshold of 0.3, no class awareness, one required vote and no class filter.
  When the two detections do not corroborate each other, because they come from the same
  source or because they come from two sources and their IOU is not above the IOU threshold,
  the consensus has exactly one detection, and its confidence is 0.9. Both detections pass
  the pre-filter; the group of the second one is rejected by the threshold on the merged
  confidence.
\<close>

theorem two_detections_scenario:
  "confidence d1 = 9 / 10 \<and> confidence d2 = 2 / 10 \<and> parent_id d1 = parent_id d2 \<and>
   (predictions = [[d1, d2]] \<or> predictions = [[d2, d1]] \<or>
    (predictions = [[d1], [d2]] \<or> predictions = [[d2], [d1]]) \<and>
    (\<exists>v. calculate_iou d1 d2 = Inr v \<and> v \<le> iou_threshold)) \<longrightarrow>
   (\<exists>present confidences m k.
      resolve_batch_consensus predictions 1 False iou_threshold (3 / 10) None
        required_objects pmode cmode bmode uuid n
      = Inr ((parent_id d1, present, confidences, [m]), k) \<and>
      confidence m = 9 / 10)"
proof (intro impI, elim conjE)
  assume c1: "confidence d1 = 9 / 10" and c2: "confidence d2 = 2 / 10"
    and par: "parent_id d1 = parent_id d2"
    and shape: "predictions = [[d1, d2]] \<or> predictions = [[d2, d1]] \<or>
      (predictions = [[d1], [d2]] \<or> predictions = [[d2], [d1]]) \<and>
      (\<exists>v. calculate_iou d1 d2 = Inr v \<and> v \<le> iou_threshold)"
  have pos: "0 < confidence d1" "0 < confidence d2" using c1 c2 by simp_all
  have hi: "(3 / 10 :: rat) \<le> confidence d1 \<or> 3 / 10 \<le> confidence d2" using c1 by simp
  have hi': "(3 / 10 :: rat) \<le> confidence d2 \<or> 3 / 10 \<le> confidence d1" using c1 by simp
  have lo: "\<not> (3 / 10 :: rat) \<le> confidence d2" using c2 by simp
  have up: "(3 / 10 :: rat) \<le> confidence d1" using c1 by simp
  from shape consider
      (same12) "predictions = [[d1, d2]]"
    | (same21) "predictions = [[d2, d1]]"
    | (two12) v where "predictions = [[d1], [d2]]" "calculate_iou d1 d2 = Inr v"
        "v \<le> iou_threshold"
    | (two21) v where "predictions = [[d2], [d1]]" "calculate_iou d1 d2 = Inr v"
        "v \<le> iou_threshold"
    by blast
  then show "\<exists>present confidences m k.
      resolve_batch_consensus predictions 1 False iou_threshold (3 / 10) None
        required_objects pmode cmode bmode uuid n
      = Inr ((parent_id d1, present, confidences, [m]), k) \<and>
      confidence m = 9 / 10"
  proof cases
    case same12
    have en: "enumerate_detections predictions None = [(0, d1), (0, d2)]"
      by (simp add: same12 enumerate_detections_def enumerate_eq_zip)
    have cc: "concat predictions = [d1, d2]" by (simp add: same12)
    from resolve_two_alone [OF par pos hi en cc, of iou_threshold required_objects pmode
        cmode bmode uuid n]
    show ?thesis
      using lo up c1 by (auto simp: same12 overlap_same_source)
  next
    case same21
    have en: "enumerate_detections predictions None = [(0, d2), (0, d1)]"
      by (simp add: same21 enumerate_detections_def enumerate_eq_zip)
    have cc: "concat predictions = [d2, d1]" by (simp add: same21)
    from resolve_two_alone [OF par [symmetric] pos(2) pos(1) hi' en cc, of iou_threshold
        required_objects pmode cmode bmode uuid n]
    show ?thesis
      using lo up c1 par by (auto simp: same21 overlap_same_source)
  next
    case two12
    have en: "enumerate_detections predictions None = [(0, d1), (Suc 0, d2)]"
      by (simp add: two12 enumerate_detections_def enumerate_eq_zip)
    have cc: "concat predictions = [d1, d2]" by (simp add: two12)
    from resolve_two_alone [OF par pos hi en cc, of iou_threshold required_objects pmode
        cmode bmode uuid n]
    show ?thesis
      using lo up c1 overlap_other_source_low_iou [OF two12(2) two12(3)]
      by (auto simp: two12(1))
  next
    case two21
    have sym: "calculate_iou d2 d1 = Inr v"
      using two21(2) calculate_iou_commute [of d2 d1] by simp
    have en: "enumerate_detections predictions None = [(0, d2), (Suc 0, d1)]"
      by (simp add: two21 enumerate_detections_def enumerate_eq_zip)
    have cc: "concat predictions = [d2, d1]" by (simp add: two21)
    from resolve_two_alone [OF par [symmetric] pos(2) pos(1) hi' en cc, of iou_threshold
        required_objects pmode cmode bmode uuid n]
    show ?thesis
      using lo up c1 par overlap_other_source_low_iou [OF sym two21(3)]
      by (auto simp: two21(1))
  qed
qed

theorem two_detections_scenario_witness:
  "(confidence (example_detection ''a'' ''image-1'' ''cat'' (9 / 10) 50) = 9 / 10 \<and>
    confidence (example_detection ''b'' ''image-1'' ''dog'' (2 / 10) 150) = 2 / 10 \<and>
    parent_id (example_detection ''a'' ''image-1'' ''cat'' (9 / 10) 50) =
      parent_id (example_detection ''b'' ''image-1'' ''dog'' (2 / 10) 150) \<and>
    calculate_iou (example_detection ''a'' ''image-1'' ''cat'' (9 / 10) 50)
      (example_detection ''b'' ''image-1'' ''dog'' (2 / 10) 150) = Inr 0 \<and>
    (0 :: rat) \<le> 3 / 10) \<and>
   (\<exists>present confidences m k.
      resolve_batch_consensus
        [[example_detection ''a'' ''image-1'' ''cat'' (9 / 10) 50],
         [example_detection ''b'' ''image-1'' ''dog'' (2 / 10) 150]]
        1 False (3 / 10) (3 / 10) None None AggAverage AggAverage AggAverage example_uuid4 0
      = Inr ((''image-1'', present, confidences, [m]), k) \<and>
      confidence m = 9 / 10) \<and>
   (\<exists>present confidences m k.
      resolve_batch_consensus
        [[example_detection ''a'' ''image-1'' ''cat'' (9 / 10) 50,
          example_detection ''b'' ''image-1'' ''dog'' (2 / 10) 150]]
        1 False (3 / 10) (3 / 10) None None AggAverage AggAverage AggAverage example_uuid4 0
      = Inr ((''image-1'', present, confidences, [m]), k) \<and>
      confidence m = 9 / 10)"
proof -
  let ?d1 = "example_detection ''a'' ''image-1'' ''cat'' (9 / 10) 50"
  let ?d2 = "example_detection ''b'' ''image-1'' ''dog'' (2 / 10) 150"
  have c1: "confidence ?d1 = 9 / 10" and c2: "confidence ?d2 = 2 / 10"
    and par: "parent_id ?d1 = parent_id ?d2" and p1: "parent_id ?d1 = ''image-1''"
    by (simp_all add: example_detection_def)
  have iou: "calculate_iou ?d1 ?d2 = Inr 0"
    by (simp add: eval_defs)
  have le: "(0 :: rat) \<le> 3 / 10" by simp
  have h1: "confidence ?d1 = 9 / 10 \<and> confidence ?d2 = 2 / 10 \<and>
      parent_id ?d1 = parent_id ?d2 \<and>
      ([[?d1], [?d2]] = [[?d1, ?d2]] \<or> [[?d1], [?d2]] = [[?d2, ?d1]] \<or>
       ([[?d1], [?d2]] = [[?d1], [?d2]] \<or> [[?d1], [?d2]] = [[?d2], [?d1]]) \<and>
       (\<exists>v. calculate_iou ?d1 ?d2 = Inr v \<and> v \<le> 3 / 10))"
    using c1 c2 par iou le by blast
  have h2: "confidence ?d1 = 9 / 10 \<and> confidence ?d2 = 2 / 10 \<and>
      parent_id ?d1 = parent_id ?d2 \<and>
      ([[?d1, ?d2]] = [[?d1, ?d2]] \<or> [[?d1, ?d2]] = [[?d2, ?d1]] \<or>
       ([[?d1, ?d2]] = [[?d1], [?d2]] \<or> [[?d1, ?d2]] = [[?d2], [?d1]]) \<and>
       (\<exists>v. calculate_iou ?d1 ?d2 = Inr v \<and> v \<le> 3 / 10))"
    using c1 c2 par by blast
  note t1 = two_detections_scenario [where ?d1.0 = ?d1 and ?d2.0 = ?d2
      and predictions = "[[?d1], [?d2]]" and iou_threshold = "3 / 10"
      and required_objects = None and pmode = AggAverage and cmode = AggAverage
      and bmode = AggAverage and uuid = example_uuid4 and n = 0, THEN mp, OF h1,
      unfolded p1]
  note t2 = two_detections_scenario [where ?d1.0 = ?d1 and ?d2.0 = ?d2
      and predictions = "[[?d1, ?d2]]" and iou_threshold = "3 / 10"
      and required_objects = None and pmode = AggAverage and cmode = AggAverage
      and bmode = AggAverage and uuid = example_uuid4 and n = 0, THEN mp, OF h2,
      unfolded p1]
  show ?thesis using c1 c2 par iou le t1 t2 by blast
qed

text \<open>
  The claim as first stated holds for any two such detections. When they come from two
  sources and lie on the same box, they are merged; with the confidence aggregation
  \<open>MIN\<close> the merged confidence is 0.2, below the threshold, and the consensus is empty.
\<close>

theorem two_detections_scenario_counterexample:
  "resolve_batch_consensus
     [[example_detection ''a'' ''image-1'' ''cat'' (9 / 10) 50],
      [example_detection ''b'' ''image-1'' ''cat'' (2 / 10) 50]]
     1 False (3 / 10) (3 / 10) None None AggAverage AggMin AggAverage example_uuid4 0
   = Inr ((''image-1'', False, [], []), 2)"
  by (simp add: eval_defs)

subsection \<open>The vote quorum\<close>





















end
